theory Spec2Isabelle
  imports Main "HOL-Library.Word" "HOL-Library.Sublist"
begin

section \<open>JavaScript values, strings and exceptions\<close>

text \<open>
  The server is one Express route, \<^verbatim>\<open>POST /api/tailor-cv\<close>, and the browser script
  \<^verbatim>\<open>public/app.js\<close> is its client. Both are JavaScript, so the model starts with the
  part of the language they use.

  A JavaScript string is a \<^typ>\<open>string\<close>: one \<^typ>\<open>char\<close> stands for one code unit,
  so the model covers text whose code units lie below 256. A byte of a \<^verbatim>\<open>Buffer\<close> or
  of a \<^verbatim>\<open>Uint8Array\<close> is an \<^typ>\<open>8 word\<close>.
\<close>

type_synonym byte = "8 word"

text \<open>
  What \<^verbatim>\<open>JSON.parse\<close> returns. A number is kept as the text that JavaScript's
  number-to-string conversion gives for it (\<^verbatim>\<open>"0"\<close> for both zeros), which is all
  the program ever asks of a number: its truthiness and its text. An object is the list
  of its own properties.
\<close>

datatype json =
    JNull
  | JBool bool
  | JNum string
  | JStr string
  | JArr "json list"
  | JObj "(string \<times> json) list"

text \<open>A value that may be \<^verbatim>\<open>undefined\<close>: \<^term>\<open>None\<close> is \<^verbatim>\<open>undefined\<close>.\<close>

type_synonym jsval = "json option"

text \<open>A thrown error, by constructor, with its \<^verbatim>\<open>message\<close>.\<close>

datatype exn =
    SyntaxError string
  | TypeError string
  | ReferenceError string
  | Error string

fun message :: "exn \<Rightarrow> string" where
  "message (SyntaxError m) = m"
| "message (TypeError m) = m"
| "message (ReferenceError m) = m"
| "message (Error m) = m"

text \<open>Sequencing of steps that may throw: the first exception ends the computation.\<close>

definition bind_exn :: "exn + 'a \<Rightarrow> ('a \<Rightarrow> exn + 'b) \<Rightarrow> exn + 'b" where
  "bind_exn m f = (case m of Inl e \<Rightarrow> Inl e | Inr x \<Rightarrow> f x)"

fun map_exn :: "('a \<Rightarrow> exn + 'b) \<Rightarrow> 'a list \<Rightarrow> exn + 'b list" where
  "map_exn f [] = Inr []"
| "map_exn f (x # xs) =
     bind_exn (f x) (\<lambda>y. bind_exn (map_exn f xs) (\<lambda>ys. Inr (y # ys)))"

text \<open>\<^verbatim>\<open>ToBoolean\<close>: what an \<^verbatim>\<open>if\<close> makes of a value.\<close>

fun truthy :: "jsval \<Rightarrow> bool" where
  "truthy None = False"
| "truthy (Some JNull) = False"
| "truthy (Some (JBool b)) = b"
| "truthy (Some (JNum n)) = (n \<noteq> ''0'')"
| "truthy (Some (JStr s)) = (s \<noteq> [])"
| "truthy (Some (JArr xs)) = True"
| "truthy (Some (JObj kvs)) = True"

fun join_with :: "string \<Rightarrow> string list \<Rightarrow> string" where
  "join_with sep [] = []"
| "join_with sep [x] = x"
| "join_with sep (x # y # ys) = x @ sep @ join_with sep (y # ys)"

text \<open>
  The conversion of a value to a string, as a template literal and the concatenation
  with a string apply it. It looks for a callable \<^verbatim>\<open>toString\<close> and then for a
  \<^verbatim>\<open>valueOf\<close> that returns a primitive (the concatenation asks in the other order).
  The properties of a parsed object are never callable, and the inherited
  \<^verbatim>\<open>valueOf\<close> returns the object itself: so an object with an own property
  \<^verbatim>\<open>toString\<close> cannot be converted and the conversion throws, and every other object
  gives \<^verbatim>\<open>[object Object]\<close>, in both orders. An array is joined with commas, each
  element converted in turn, a \<^verbatim>\<open>null\<close> element giving the empty text.
\<close>

definition cannot_convert :: exn where
  "cannot_convert = TypeError ''Cannot convert object to primitive value''"

fun to_string_json :: "json \<Rightarrow> exn + string"
  and to_string_elements :: "json list \<Rightarrow> exn + string list" where
  "to_string_json JNull = Inr ''null''"
| "to_string_json (JBool b) = Inr (if b then ''true'' else ''false'')"
| "to_string_json (JNum n) = Inr n"
| "to_string_json (JStr s) = Inr s"
| "to_string_json (JArr xs) =
     (case to_string_elements xs of
        Inl e \<Rightarrow> Inl e
      | Inr parts \<Rightarrow> Inr (join_with '','' parts))"
| "to_string_json (JObj kvs) =
     (if map_of kvs ''toString'' \<noteq> None then Inl cannot_convert
      else Inr ''[object Object]'')"
| "to_string_elements [] = Inr []"
| "to_string_elements (x # xs) =
     (case (if x = JNull then Inr [] else to_string_json x) of
        Inl e \<Rightarrow> Inl e
      | Inr part \<Rightarrow>
          (case to_string_elements xs of
             Inl e \<Rightarrow> Inl e
           | Inr parts \<Rightarrow> Inr (part # parts)))"

definition ToString :: "jsval \<Rightarrow> exn + string" where
  "ToString v = (case v of None \<Rightarrow> Inr ''undefined'' | Some j \<Rightarrow> to_string_json j)"

text \<open>
  Reading a property \<^verbatim>\<open>v.k\<close>. On \<^verbatim>\<open>undefined\<close> and \<^verbatim>\<open>null\<close> it throws; on an
  object it is the own property or \<^verbatim>\<open>undefined\<close>; on a string, number, boolean or
  array it is \<^verbatim>\<open>undefined\<close> for every name that the built-in prototypes do not have,
  which holds for all the names this program reads.
\<close>

definition cannot_read :: "string \<Rightarrow> string \<Rightarrow> exn" where
  "cannot_read what k =
     TypeError (''Cannot read properties of '' @ what @ '' (reading '' @ [CHR 0x27] @ k
                @ [CHR 0x27] @ '')'')"

fun get_prop :: "jsval \<Rightarrow> string \<Rightarrow> exn + jsval" where
  "get_prop None k = Inl (cannot_read ''undefined'' k)"
| "get_prop (Some JNull) k = Inl (cannot_read ''null'' k)"
| "get_prop (Some (JObj kvs)) k = Inr (map_of kvs k)"
| "get_prop (Some _) k = Inr None"

text \<open>A property inside a template literal, \<^verbatim>\<open>${v.k}\<close>: it is read and then converted.\<close>

definition read_text :: "jsval \<Rightarrow> string \<Rightarrow> exn + string" where
  "read_text v k = bind_exn (get_prop v k) ToString"

text \<open>
  \<^verbatim>\<open>for (const x of v)\<close>: an array gives its elements, a string its characters, and
  anything else is not iterable. The first argument is the source text of \<^verbatim>\<open>v\<close>, for
  the message.
\<close>

fun iterate :: "string \<Rightarrow> jsval \<Rightarrow> exn + json list" where
  "iterate src (Some (JArr xs)) = Inr xs"
| "iterate src (Some (JStr s)) = Inr (map (\<lambda>c. JStr [c]) s)"
| "iterate src _ = Inl (TypeError (src @ '' is not iterable''))"

text \<open>
  The method calls \<^verbatim>\<open>v.join(sep)\<close> and \<^verbatim>\<open>v.toUpperCase()\<close>. Only an array has
  \<^verbatim>\<open>join\<close> and only a string has \<^verbatim>\<open>toUpperCase\<close>; \<^verbatim>\<open>join\<close> converts the
  elements as above; the upper-casing itself is the platform's and is a parameter.
\<close>

fun call_join :: "string \<Rightarrow> jsval \<Rightarrow> string \<Rightarrow> exn + string" where
  "call_join src None sep = Inl (cannot_read ''undefined'' ''join'')"
| "call_join src (Some JNull) sep = Inl (cannot_read ''null'' ''join'')"
| "call_join src (Some (JArr xs)) sep =
     (case to_string_elements xs of
        Inl e \<Rightarrow> Inl e
      | Inr parts \<Rightarrow> Inr (join_with sep parts))"
| "call_join src (Some _) sep = Inl (TypeError (src @ ''.join is not a function''))"

fun call_toUpperCase :: "(string \<Rightarrow> string) \<Rightarrow> string \<Rightarrow> jsval \<Rightarrow> exn + string" where
  "call_toUpperCase upper src None = Inl (cannot_read ''undefined'' ''toUpperCase'')"
| "call_toUpperCase upper src (Some JNull) = Inl (cannot_read ''null'' ''toUpperCase'')"
| "call_toUpperCase upper src (Some (JStr s)) = Inr (upper s)"
| "call_toUpperCase upper src (Some _) =
     Inl (TypeError (src @ ''.toUpperCase is not a function''))"

subsection \<open>Removing code fences\<close>

text \<open>
  \<^verbatim>\<open>s.replace(/```json|```/g, "")\<close> scans from the left; at each position it tries
  the longer alternative first, removes a match and goes on behind it, and copies the
  character where neither alternative matches.
\<close>

fun strip_fences :: "string \<Rightarrow> string" where
  "strip_fences [] = []"
| "strip_fences (c # cs) =
     (if prefix ''```json'' (c # cs) then strip_fences (drop 6 cs)
      else if prefix ''```'' (c # cs) then strip_fences (drop 2 cs)
      else c # strip_fences cs)"

text \<open>\<^verbatim>\<open>s.trim()\<close> removes white space and line terminators at both ends.\<close>

definition js_whitespace :: "char \<Rightarrow> bool" where
  "js_whitespace c =
     (c \<in> set [CHR 0x09, CHR 0x0A, CHR 0x0B, CHR 0x0C, CHR 0x0D, CHR 0x20, CHR 0xA0])"

definition trim :: "string \<Rightarrow> string" where
  "trim s = rev (dropWhile js_whitespace (rev (dropWhile js_whitespace s)))"

text \<open>
  The specification's wording, for comparison with \<^const>\<open>strip_fences\<close>: only a marker
  at the very start and a marker at the very end of the (trimmed) text are removed.
\<close>

definition strip_leading_fence :: "string \<Rightarrow> string" where
  "strip_leading_fence s =
     (if prefix ''```json'' s then drop 7 s else if prefix ''```'' s then drop 3 s else s)"

definition strip_trailing_fence :: "string \<Rightarrow> string" where
  "strip_trailing_fence s =
     (if suffix ''```json'' s then take (length s - 7) s
      else if suffix ''```'' s then take (length s - 3) s else s)"

definition strip_outer_fences_spec :: "string \<Rightarrow> string" where
  "strip_outer_fences_spec s = trim (strip_trailing_fence (strip_leading_fence (trim s)))"

text \<open>Whether a text still holds a fence marker somewhere.\<close>

fun has_fence :: "string \<Rightarrow> bool" where
  "has_fence [] = False"
| "has_fence (c # cs) = (prefix ''```'' (c # cs) \<or> has_fence cs)"

section \<open>Base64 transport of the rendered files\<close>

text \<open>
  The server sends a rendered buffer as \<^verbatim>\<open>buffer.toString("base64")\<close> and the client
  turns it back into bytes with \<^verbatim>\<open>atob\<close> (in \<^verbatim>\<open>downloadFile\<close>). Both are platform
  functions; they are written out here after RFC 4648 and after the forgiving decoder of
  the HTML standard that \<^verbatim>\<open>atob\<close> is.
\<close>

definition base64_alphabet :: string where
  "base64_alphabet = ''ABCDEFGHIJKLMNOPQRSTUVWXYZabcdefghijklmnopqrstuvwxyz0123456789+/''"

definition base64_char :: "nat \<Rightarrow> char" where
  "base64_char n = base64_alphabet ! n"

fun index_of :: "'a \<Rightarrow> 'a list \<Rightarrow> nat option" where
  "index_of x [] = None"
| "index_of x (y # ys) = (if x = y then Some 0 else map_option Suc (index_of x ys))"

definition base64_index :: "char \<Rightarrow> nat option" where
  "base64_index c = index_of c base64_alphabet"

text \<open>Three bytes give four 6-bit groups; a last group of one or two bytes gives two or three.\<close>

fun sextets :: "nat list \<Rightarrow> nat list" where
  "sextets (a # b # c # rest) =
     [a div 4, a mod 4 * 16 + b div 16, b mod 16 * 4 + c div 64, c mod 64] @ sextets rest"
| "sextets [a, b] = [a div 4, a mod 4 * 16 + b div 16, b mod 16 * 4]"
| "sextets [a] = [a div 4, a mod 4 * 16]"
| "sextets [] = []"

definition padding :: "nat \<Rightarrow> string" where
  "padding len = (if len mod 3 = 1 then ''=='' else if len mod 3 = 2 then ''='' else [])"

definition toString_base64 :: "byte list \<Rightarrow> string" where
  "toString_base64 buf = map base64_char (sextets (map unat buf)) @ padding (length buf)"

definition ascii_whitespace :: "char \<Rightarrow> bool" where
  "ascii_whitespace c = (c \<in> set [CHR 0x09, CHR 0x0A, CHR 0x0C, CHR 0x0D, CHR 0x20])"

text \<open>One or two \<^verbatim>\<open>=\<close> at the end are removed; the argument is the reversed text.\<close>

fun drop_padding_rev :: "string \<Rightarrow> string" where
  "drop_padding_rev (x # y # r) =
     (if x = CHR ''='' then (if y = CHR ''='' then r else y # r) else x # y # r)"
| "drop_padding_rev [x] = (if x = CHR ''='' then [] else [x])"
| "drop_padding_rev [] = []"

text \<open>Four groups give three bytes; two or three left-over groups give one or two.\<close>

fun sextets_to_binary :: "nat list \<Rightarrow> string" where
  "sextets_to_binary (s1 # s2 # s3 # s4 # rest) =
     [char_of (s1 * 4 + s2 div 16), char_of (s2 mod 16 * 16 + s3 div 4),
      char_of (s3 mod 4 * 64 + s4)] @ sextets_to_binary rest"
| "sextets_to_binary [s1, s2, s3] =
     [char_of (s1 * 4 + s2 div 16), char_of (s2 mod 16 * 16 + s3 div 4)]"
| "sextets_to_binary [s1, s2] = [char_of (s1 * 4 + s2 div 16)]"
| "sextets_to_binary _ = []"

text \<open>
  \<^verbatim>\<open>atob\<close>: \<^term>\<open>None\<close> is its \<^verbatim>\<open>InvalidCharacterError\<close>; the result is a binary
  string, one character per byte.
\<close>

definition atob :: "string \<Rightarrow> string option" where
  "atob s =
     (let d = filter (\<lambda>c. \<not> ascii_whitespace c) s;
          d = (if length d mod 4 = 0 then rev (drop_padding_rev (rev d)) else d)
      in if length d mod 4 = 1 then None
         else map_option sextets_to_binary (those (map base64_index d)))"

text \<open>
  The loop of \<^verbatim>\<open>downloadFile\<close>: \<^verbatim>\<open>bytes[i] = binaryString.charCodeAt(i)\<close> for every
  index of the decoded string.
\<close>

definition base64_to_bytes :: "string \<Rightarrow> byte list option" where
  "base64_to_bytes base64Data =
     map_option (map (\<lambda>c. (of_nat (of_char c :: nat) :: byte))) (atob base64Data)"

text \<open>
  \<^verbatim>\<open>downloadFile(base64Data, fileName, format)\<close>: an empty \<^verbatim>\<open>base64Data\<close> is falsy
  and only shows a message; a decoding error is caught and shown; otherwise the bytes
  are saved under \<^verbatim>\<open>fileName\<close> with the MIME type of the format.
\<close>

datatype download =
    NoFileData
  | DownloadFailed
  | Saved "byte list" string string

definition downloadFile :: "string \<Rightarrow> string \<Rightarrow> string \<Rightarrow> download" where
  "downloadFile base64Data fileName format =
     (if base64Data = [] then NoFileData
      else case base64_to_bytes base64Data of
             None \<Rightarrow> DownloadFailed
           | Some bytes \<Rightarrow>
               Saved bytes
                 (if format = ''pdf'' then ''application/pdf''
                  else ''application/vnd.openxmlformats-officedocument.wordprocessingml.document'')
                 fileName)"

section \<open>The world outside the handler\<close>

text \<open>
  What \<^verbatim>\<open>multer\<close> knows of an uploaded file when it calls \<^verbatim>\<open>fileFilter\<close>, and the
  \<^verbatim>\<open>req.file\<close> it hands to the route once the file is stored.
\<close>

record file_info =
  originalname :: string
  mimetype :: string

record stored_file = file_info +
  path :: string

text \<open>
  The handler's effects are a file read, one text extraction, the completion calls, and
  the removal of the upload. The world is the upload directory and the log of these
  calls, in the order in which they are issued.
\<close>

datatype call =
    ReadFile string
  | PdfParse "byte list"
  | ExtractRawText "byte list"
  | ChatCompletion string string nat
  | UnlinkFile string

record world =
  files :: "string \<rightharpoonup> byte list"
  calls :: "call list"

text \<open>
  A rendered document as the libraries receive it: for \<^verbatim>\<open>docx\<close> the paragraphs, each
  the \<^verbatim>\<open>text\<close> values of its runs; for \<^verbatim>\<open>pdfkit\<close> the \<^verbatim>\<open>text\<close> calls and the
  stroked rules, in order. Fonts, sizes, colours and spacing are constants of the source
  and are left out.
\<close>

type_synonym docx_paragraph = "jsval list"

datatype pdf_cmd = PdfText jsval | PdfRule

text \<open>
  The collaborators of the program, as functions: the two text extractors
  (\<^verbatim>\<open>(await pdfParse(buffer)).text\<close>, \<^verbatim>\<open>(await mammoth.extractRawText({buffer})).value\<close>),
  the completion endpoint as \<^verbatim>\<open>callDeepSeek\<close> reads it (the first choice's message
  content, or the error of \<^verbatim>\<open>axios.post\<close> or of that read), \<^verbatim>\<open>JSON.parse\<close>,
  \<^verbatim>\<open>String.prototype.toUpperCase\<close>, the two libraries that turn a document into bytes
  (all of their work on the document, the construction of its parts included), and the
  scheduler: \<^verbatim>\<open>first_rejected\<close> says which of several rejected promises was
  rejected first.
\<close>

record env =
  pdfParse :: "byte list \<Rightarrow> exn + string"
  extractRawText :: "byte list \<Rightarrow> exn + string"
  chat_completions :: "string \<Rightarrow> string \<Rightarrow> nat \<Rightarrow> exn + string"
  JSON_parse :: "string \<Rightarrow> exn + json"
  toUpperCase :: "string \<Rightarrow> string"
  Packer_toBuffer :: "docx_paragraph list \<Rightarrow> exn + byte list"
  PDFDocument_end :: "pdf_cmd list \<Rightarrow> exn + byte list"
  first_rejected :: nat

text \<open>A step of the handler: it may throw, and it may change the world.\<close>

type_synonym 'a io = "world \<Rightarrow> (exn + 'a) \<times> world"

definition return_io :: "'a \<Rightarrow> 'a io" where
  "return_io x w = (Inr x, w)"

definition lift_io :: "exn + 'a \<Rightarrow> 'a io" where
  "lift_io r w = (r, w)"

definition bind_io :: "'a io \<Rightarrow> ('a \<Rightarrow> 'b io) \<Rightarrow> 'b io" where
  "bind_io m f w = (case m w of (Inl e, w') \<Rightarrow> (Inl e, w') | (Inr x, w') \<Rightarrow> f x w')"

definition issue :: "call \<Rightarrow> world \<Rightarrow> world" where
  "issue c w = w\<lparr>calls := calls w @ [c]\<rparr>"

section \<open>Upload filter\<close>

definition allowedTypes :: "string list" where
  "allowedTypes =
     [''application/pdf'',
      ''application/vnd.openxmlformats-officedocument.wordprocessingml.document'']"

text \<open>\<^verbatim>\<open>cb(null, true)\<close> is \<^term>\<open>Inr True\<close>, \<^verbatim>\<open>cb(new Error(...), false)\<close> the error.\<close>

definition fileFilter :: "'a file_info_scheme \<Rightarrow> exn + bool" where
  "fileFilter file =
     (if mimetype file \<in> set allowedTypes then Inr True
      else Inl (Error ''Invalid file type. Only PDF and DOCX files are allowed.''))"

definition fileSize_limit :: nat where
  "fileSize_limit = 10 * 1024 * 1024"

text \<open>
  \<^verbatim>\<open>upload.single("cv")\<close> with the configured storage, filter and limit, as
  \<^verbatim>\<open>multer\<close> documents it: a file part that the filter refuses with an error, or that
  is longer than \<^verbatim>\<open>limits.fileSize\<close>, fails the request before the route runs and
  leaves no file; a part the filter skips gives no \<^verbatim>\<open>req.file\<close>; otherwise the content
  is stored under the name the storage chose, here the argument \<^verbatim>\<open>dest\<close>.
\<close>

definition upload_single ::
  "file_info \<Rightarrow> byte list \<Rightarrow> string \<Rightarrow> world \<Rightarrow> (exn + stored_file option) \<times> world"
where
  "upload_single file content dest w =
     (case fileFilter file of
        Inl e \<Rightarrow> (Inl e, w)
      | Inr accepted \<Rightarrow>
          if \<not> accepted then (Inr None, w)
          else if fileSize_limit < length content then (Inl (Error ''File too large''), w)
          else (Inr (Some \<lparr>originalname = originalname file, mimetype = mimetype file,
                            path = dest\<rparr>),
                w\<lparr>files := (files w)(dest \<mapsto> content)\<rparr>))"

section \<open>Content extractor and completion client\<close>

definition parseCVContent :: "env \<Rightarrow> string \<Rightarrow> string \<Rightarrow> string io" where
  "parseCVContent env filePath mimeType w =
     (case files w filePath of
        None \<Rightarrow>
          (Inl (Error (''ENOENT: no such file or directory, open '' @ [CHR 0x27] @ filePath
                       @ [CHR 0x27])),
           issue (ReadFile filePath) w)
      | Some buffer \<Rightarrow>
          if mimeType = ''application/pdf''
          then (pdfParse env buffer, issue (PdfParse buffer) (issue (ReadFile filePath) w))
          else (extractRawText env buffer,
                issue (ExtractRawText buffer) (issue (ReadFile filePath) w)))"

definition callDeepSeek :: "env \<Rightarrow> string \<Rightarrow> string \<Rightarrow> nat \<Rightarrow> string io" where
  "callDeepSeek env systemPrompt userPrompt maxTokens w =
     (chat_completions env systemPrompt userPrompt maxTokens,
      issue (ChatCompletion systemPrompt userPrompt maxTokens) w)"

text \<open>
  A text field of the request body inside a template literal: a missing field reads
  \<^verbatim>\<open>undefined\<close>. The prompt of the cover letter and of the email is built before the
  call: when the candidate's name cannot be converted, the function throws and no call
  is made.
\<close>

definition text_of :: "string option \<Rightarrow> string" where
  "text_of field = (case field of None \<Rightarrow> ''undefined'' | Some s \<Rightarrow> s)"

definition generateTailoredCV :: "env \<Rightarrow> string \<Rightarrow> string option \<Rightarrow> string io" where
  \<open>generateTailoredCV env cvContent jobDescription =
     callDeepSeek env ''You are an expert CV writer. Always output JSON.''
      (''You are a professional CV writer. Analyze the original CV and tailor it for the target job.\<newline>'' @
       ''\<newline>'' @
       ''ORIGINAL CV:\<newline>'' @
       cvContent @
       ''\<newline>'' @
       ''\<newline>'' @
       ''TARGET JOB DESCRIPTION:\<newline>'' @
       text_of jobDescription @
       ''\<newline>'' @
       ''\<newline>'' @
       ''INSTRUCTIONS:\<newline>'' @
       ''1. Extract candidate's EXACT name, email, phone, location from CV\<newline>'' @
       ''2. Create professional summary (3-4 sentences)\<newline>'' @
       ''3. Rewrite bullet points for experience to match target job\<newline>'' @
       ''4. List relevant skills\<newline>'' @
       ''5. Include EXACT education details\<newline>'' @
       ''\<newline>'' @
       ''OUTPUT FORMAT (JSON):\<newline>'' @
       ''{\<newline>'' @
       ''  "personalInfo": { "fullName": "...", "email": "...", "phone": "...", "location": "...", "linkedin": "..." },\<newline>'' @
       ''  "summary": "...",\<newline>'' @
       ''  "experience": [ { "title": "...", "company": "...", "location": "...", "dates": "...", "achievements": ["..."] } ],\<newline>'' @
       ''  "skills": ["..."],\<newline>'' @
       ''  "education": [ { "degree": "...", "institution": "...", "dates": "...", "details": "..." } ]\<newline>'' @
       ''}\<newline>'' @
       ''\<newline>'' @
       ''Return ONLY valid JSON.'')
      4000\<close>

definition generateCoverLetter ::
  "env \<Rightarrow> string \<Rightarrow> string option \<Rightarrow> jsval \<Rightarrow> string io" where
  "generateCoverLetter env cvContent jobDescription candidateName =
     bind_io (lift_io (ToString candidateName)) (\<lambda>name.
     callDeepSeek env ''You write professional cover letters without placeholders or asterisks.''
      (''Write a professional cover letter for '' @ name @
       '' for this job:\<newline>'' @ text_of jobDescription @
       ''\<newline>Original CV Context:\<newline>'' @ cvContent)
      2048)"

definition generateApplicationEmail ::
  "env \<Rightarrow> string \<Rightarrow> string option \<Rightarrow> jsval \<Rightarrow> string io" where
  "generateApplicationEmail env cvContent jobDescription candidateName =
     bind_io (lift_io (ToString candidateName)) (\<lambda>name.
     callDeepSeek env
      ''You write professional job application emails without placeholders or asterisks.''
      (''Write a professional application email for '' @ name @
       '' for this job:\<newline>'' @ text_of jobDescription)
      1024)"

section \<open>Renderers\<close>

text \<open>
  The bullet of the source's literals is U+2022, outside the range of \<^typ>\<open>char\<close>; it
  is written as its three UTF-8 bytes. It only flows into the rendering libraries.
\<close>

definition bullet :: string where
  "bullet = [CHR 0xE2, CHR 0x80, CHR 0xA2]"

definition docx_heading :: "string \<Rightarrow> docx_paragraph" where
  "docx_heading title = [Some (JStr title)]"

text \<open>The body of the loop over \<^verbatim>\<open>cvData.experience\<close> in \<^verbatim>\<open>generateCVDocx\<close>.\<close>

definition docx_job :: "json \<Rightarrow> exn + docx_paragraph list" where
  "docx_job job =
     bind_exn (get_prop (Some job) ''title'') (\<lambda>title.
     bind_exn (get_prop (Some job) ''company'') (\<lambda>company.
     bind_exn (read_text (Some job) ''location'') (\<lambda>location.
     bind_exn (read_text (Some job) ''dates'') (\<lambda>dates.
     bind_exn (get_prop (Some job) ''achievements'') (\<lambda>achievements.
     bind_exn (iterate ''job.achievements'' achievements) (\<lambda>achs.
     bind_exn (map_exn to_string_json achs) (\<lambda>lines.
       Inr ([[title, Some (JStr ''  |  ''), company],
             [Some (JStr (location @ '' | '' @ dates))]]
            @ map (\<lambda>line. [Some (JStr (bullet @ '' '' @ line))]) lines))))))))"

text \<open>The body of the loop over \<^verbatim>\<open>cvData.education\<close>.\<close>

definition docx_education :: "json \<Rightarrow> exn + docx_paragraph list" where
  "docx_education edu =
     bind_exn (get_prop (Some edu) ''degree'') (\<lambda>degree.
     bind_exn (read_text (Some edu) ''institution'') (\<lambda>institution.
     bind_exn (read_text (Some edu) ''dates'') (\<lambda>dates.
       Inr [[degree], [Some (JStr (institution @ '' | '' @ dates))]])))"

definition generateCVDocx :: "env \<Rightarrow> json \<Rightarrow> exn + byte list" where
  "generateCVDocx env cvData =
     bind_exn (get_prop (Some cvData) ''personalInfo'') (\<lambda>personalInfo.
     bind_exn (get_prop personalInfo ''fullName'') (\<lambda>fullName.
     bind_exn (call_toUpperCase (toUpperCase env) ''cvData.personalInfo.fullName'' fullName)
       (\<lambda>name.
     bind_exn (read_text personalInfo ''email'') (\<lambda>email.
     bind_exn (read_text personalInfo ''phone'') (\<lambda>phone.
     bind_exn (read_text personalInfo ''location'') (\<lambda>location.
     bind_exn (get_prop (Some cvData) ''summary'') (\<lambda>summary.
     bind_exn (get_prop (Some cvData) ''experience'') (\<lambda>experience.
     bind_exn (iterate ''cvData.experience'' experience) (\<lambda>jobs.
     bind_exn (map_exn docx_job jobs) (\<lambda>job_paragraphs.
     bind_exn (get_prop (Some cvData) ''skills'') (\<lambda>skills.
     bind_exn (call_join ''cvData.skills'' skills (''  '' @ bullet @ ''  '')) (\<lambda>skills_line.
     bind_exn (get_prop (Some cvData) ''education'') (\<lambda>education.
     bind_exn (iterate ''cvData.education'' education) (\<lambda>schools.
     bind_exn (map_exn docx_education schools) (\<lambda>education_paragraphs.
       Packer_toBuffer env
         ([[Some (JStr name)],
           [Some (JStr (email @ '' | '' @ phone @ '' | '' @ location))],
           []]
          @ [docx_heading ''PROFESSIONAL SUMMARY'', [summary]]
          @ [docx_heading ''PROFESSIONAL EXPERIENCE'']
          @ concat job_paragraphs
          @ [docx_heading ''SKILLS'', [Some (JStr skills_line)]]
          @ [docx_heading ''EDUCATION'']
          @ concat education_paragraphs))))))))))))))))"

definition renderSectionHeader :: "string \<Rightarrow> pdf_cmd list" where
  "renderSectionHeader title = [PdfText (Some (JStr title)), PdfRule]"

definition pdf_job :: "json \<Rightarrow> exn + pdf_cmd list" where
  "pdf_job job =
     bind_exn (get_prop (Some job) ''title'') (\<lambda>title.
     bind_exn (get_prop (Some job) ''company'') (\<lambda>company.
     bind_exn (read_text (Some job) ''location'') (\<lambda>location.
     bind_exn (read_text (Some job) ''dates'') (\<lambda>dates.
     bind_exn (get_prop (Some job) ''achievements'') (\<lambda>achievements.
     bind_exn (iterate ''job.achievements'' achievements) (\<lambda>achs.
     bind_exn (map_exn to_string_json achs) (\<lambda>lines.
       Inr ([PdfText title, PdfText (Some (JStr ''  |  '')), PdfText company,
             PdfText (Some (JStr (location @ '' | '' @ dates)))]
            @ map (\<lambda>line. PdfText (Some (JStr (bullet @ '' '' @ line)))) lines))))))))"

definition pdf_education :: "json \<Rightarrow> exn + pdf_cmd list" where
  "pdf_education edu =
     bind_exn (get_prop (Some edu) ''degree'') (\<lambda>degree.
     bind_exn (read_text (Some edu) ''institution'') (\<lambda>institution.
     bind_exn (read_text (Some edu) ''dates'') (\<lambda>dates.
       Inr [PdfText degree, PdfText (Some (JStr (institution @ '' | '' @ dates)))])))"

text \<open>
  In \<^verbatim>\<open>generateCVPDF\<close> an exception inside the promise's executor rejects the promise;
  otherwise the promise resolves with the bytes once the document has ended.
\<close>

definition generateCVPDF :: "env \<Rightarrow> json \<Rightarrow> exn + byte list" where
  "generateCVPDF env cvData =
     bind_exn (get_prop (Some cvData) ''personalInfo'') (\<lambda>personalInfo.
     bind_exn (get_prop personalInfo ''fullName'') (\<lambda>fullName.
     bind_exn (call_toUpperCase (toUpperCase env) ''cvData.personalInfo.fullName'' fullName)
       (\<lambda>name.
     bind_exn (read_text personalInfo ''email'') (\<lambda>email.
     bind_exn (read_text personalInfo ''phone'') (\<lambda>phone.
     bind_exn (read_text personalInfo ''location'') (\<lambda>location.
     bind_exn (get_prop (Some cvData) ''summary'') (\<lambda>summary.
     bind_exn (get_prop (Some cvData) ''experience'') (\<lambda>experience.
     bind_exn (iterate ''cvData.experience'' experience) (\<lambda>jobs.
     bind_exn (map_exn pdf_job jobs) (\<lambda>job_cmds.
     bind_exn (get_prop (Some cvData) ''skills'') (\<lambda>skills.
     bind_exn (call_join ''cvData.skills'' skills (''  '' @ bullet @ ''  '')) (\<lambda>skills_line.
     bind_exn (get_prop (Some cvData) ''education'') (\<lambda>education.
     bind_exn (iterate ''cvData.education'' education) (\<lambda>schools.
     bind_exn (map_exn pdf_education schools) (\<lambda>education_cmds.
       PDFDocument_end env
         ([PdfText (Some (JStr name)),
           PdfText (Some (JStr (email @ '' | '' @ phone @ '' | '' @ location))),
           PdfRule]
          @ renderSectionHeader ''PROFESSIONAL SUMMARY'' @ [PdfText summary]
          @ renderSectionHeader ''PROFESSIONAL EXPERIENCE''
          @ concat job_cmds
          @ renderSectionHeader ''SKILLS'' @ [PdfText (Some (JStr skills_line))]
          @ renderSectionHeader ''EDUCATION''
          @ concat education_cmds))))))))))))))))"

definition generateTextPDF :: "env \<Rightarrow> string \<Rightarrow> string \<Rightarrow> exn + byte list" where
  "generateTextPDF env title body =
     PDFDocument_end env [PdfText (Some (JStr title)), PdfText (Some (JStr body))]"

text \<open>
  The route calls \<^verbatim>\<open>generateTextDocx(title, text)\<close> for a cover letter or an email in
  any format other than \<^verbatim>\<open>"pdf"\<close>. The program has no declaration of that name: no
  function, no variable, no import. Evaluating the call therefore throws a
  \<^verbatim>\<open>ReferenceError\<close>, whatever the arguments.
\<close>

definition generateTextDocx :: "string \<Rightarrow> string \<Rightarrow> exn + byte list" where
  "generateTextDocx title body = Inl (ReferenceError ''generateTextDocx is not defined'')"

section \<open>The route \<^verbatim>\<open>POST /api/tailor-cv\<close>\<close>

text \<open>The request as the route sees it after \<^verbatim>\<open>multer\<close>: two text fields and the stored file.\<close>

record request =
  body_jobDescription :: "string option"
  body_options :: "string option"
  req_file :: "stored_file option"

datatype kind = CV | CoverLetter | Email

record document =
  preview :: string
  fileName :: string
  fileData :: string

text \<open>The \<^verbatim>\<open>results\<close> object: a key is present when its task has stored a document.\<close>

record results =
  cv :: "document option"
  coverLetter :: "document option"
  email :: "document option"

text \<open>
  \<^verbatim>\<open>res.json({ success: true, ...results })\<close> with the default status 200, or
  \<^verbatim>\<open>res.status(500).json({ error: err.message })\<close>.
\<close>

datatype payload =
    Success results
  | Failure string

datatype response = Response nat payload

text \<open>The constants the route has bound when it starts the document tasks.\<close>

record locals =
  options :: json
  cvFile :: stored_file
  jobDescription :: "string option"
  cvContent :: string
  tailoredCVResponse :: string
  cvData :: json
  candidateName :: jsval

text \<open>The argument of the second \<^verbatim>\<open>JSON.parse\<close>.\<close>

definition resume_json_text :: "string \<Rightarrow> string" where
  "resume_json_text resp = trim (strip_fences resp)"

text \<open>
  The first statements of the route, up to \<^verbatim>\<open>candidateName\<close>. Reading
  \<^verbatim>\<open>cvFile.path\<close> of a request without a file throws.
\<close>

definition prepare :: "env \<Rightarrow> request \<Rightarrow> locals io" where
  "prepare env req =
     bind_io (lift_io (JSON_parse env (text_of (body_options req)))) (\<lambda>opts.
     bind_io (lift_io (case req_file req of
                         None \<Rightarrow> Inl (cannot_read ''undefined'' ''path'')
                       | Some f \<Rightarrow> Inr f)) (\<lambda>f.
     bind_io (parseCVContent env (path f) (mimetype f)) (\<lambda>content.
     bind_io (generateTailoredCV env content (body_jobDescription req)) (\<lambda>resp.
     bind_io (lift_io (JSON_parse env (resume_json_text resp))) (\<lambda>data.
     bind_io (lift_io (bind_exn (get_prop (Some data) ''personalInfo'')
                         (\<lambda>personalInfo. get_prop personalInfo ''fullName''))) (\<lambda>name.
       return_io \<lparr>options = opts, cvFile = f, jobDescription = body_jobDescription req,
                  cvContent = content, tailoredCVResponse = resp, cvData = data,
                  candidateName = name\<rparr>))))))"

text \<open>
  A task is an \<^verbatim>\<open>async\<close> function called at once: it runs up to its first
  \<^verbatim>\<open>await\<close>, so its completion call is issued when the task is created; an exception
  in it rejects its promise and is not thrown into the route. Each task builds its file
  name, \<^verbatim>\<open>`${candidateName}_CV.${options.format}`\<close> and the like, before it renders:
  a name or a format that cannot be converted rejects the task.
\<close>

type_synonym promise = "kind \<times> (exn + document)"

definition cv_task :: "env \<Rightarrow> locals \<Rightarrow> world \<Rightarrow> (exn + document) \<times> world" where
  "cv_task env ctx w =
     (bind_exn (ToString (candidateName ctx)) (\<lambda>name.
      bind_exn (read_text (Some (options ctx)) ''format'') (\<lambda>extension.
      bind_exn (get_prop (Some (options ctx)) ''format'') (\<lambda>format.
      bind_exn (if format = Some (JStr ''pdf'') then generateCVPDF env (cvData ctx)
                else generateCVDocx env (cvData ctx)) (\<lambda>buffer.
        Inr \<lparr>preview = tailoredCVResponse ctx,
             fileName = name @ ''_CV.'' @ extension,
             fileData = toString_base64 buffer\<rparr>)))),
      w)"

definition coverLetter_task :: "env \<Rightarrow> locals \<Rightarrow> world \<Rightarrow> (exn + document) \<times> world" where
  "coverLetter_task env ctx w =
     (case generateCoverLetter env (cvContent ctx) (jobDescription ctx) (candidateName ctx) w of
        (Inl e, w') \<Rightarrow> (Inl e, w')
      | (Inr text, w') \<Rightarrow>
          (bind_exn (ToString (candidateName ctx)) (\<lambda>name.
           bind_exn (read_text (Some (options ctx)) ''format'') (\<lambda>extension.
           bind_exn (get_prop (Some (options ctx)) ''format'') (\<lambda>format.
           bind_exn (if format = Some (JStr ''pdf'') then generateTextPDF env ''Cover Letter'' text
                     else generateTextDocx ''Cover Letter'' text) (\<lambda>buffer.
             Inr \<lparr>preview = text,
                  fileName = name @ ''_Cover_Letter.'' @ extension,
                  fileData = toString_base64 buffer\<rparr>)))),
           w'))"

definition email_task :: "env \<Rightarrow> locals \<Rightarrow> world \<Rightarrow> (exn + document) \<times> world" where
  "email_task env ctx w =
     (case generateApplicationEmail env (cvContent ctx) (jobDescription ctx) (candidateName ctx) w of
        (Inl e, w') \<Rightarrow> (Inl e, w')
      | (Inr text, w') \<Rightarrow>
          (bind_exn (ToString (candidateName ctx)) (\<lambda>name.
           bind_exn (read_text (Some (options ctx)) ''format'') (\<lambda>extension.
           bind_exn (get_prop (Some (options ctx)) ''format'') (\<lambda>format.
           bind_exn (if format = Some (JStr ''pdf'')
                     then generateTextPDF env ''Application Email'' text
                     else generateTextDocx ''Application Email'' text) (\<lambda>buffer.
             Inr \<lparr>preview = text,
                  fileName = name @ ''_Email.'' @ extension,
                  fileData = toString_base64 buffer\<rparr>)))),
           w'))"

text \<open>\<^verbatim>\<open>if (selected) promises.push(task())\<close>.\<close>

definition spawn ::
  "bool \<Rightarrow> kind \<Rightarrow> (world \<Rightarrow> (exn + document) \<times> world) \<Rightarrow> promise list io" where
  "spawn selected k task w =
     (if selected then (case task w of (outcome, w') \<Rightarrow> (Inr [(k, outcome)], w'))
      else (Inr [], w))"

definition fan_out :: "env \<Rightarrow> locals \<Rightarrow> promise list io" where
  "fan_out env ctx =
     bind_io (lift_io (get_prop (Some (options ctx)) ''cv'')) (\<lambda>sel_cv.
     bind_io (spawn (truthy sel_cv) CV (cv_task env ctx)) (\<lambda>p1.
     bind_io (lift_io (get_prop (Some (options ctx)) ''coverLetter'')) (\<lambda>sel_coverLetter.
     bind_io (spawn (truthy sel_coverLetter) CoverLetter (coverLetter_task env ctx)) (\<lambda>p2.
     bind_io (lift_io (get_prop (Some (options ctx)) ''email'')) (\<lambda>sel_email.
     bind_io (spawn (truthy sel_email) Email (email_task env ctx)) (\<lambda>p3.
       return_io (p1 @ p2 @ p3)))))))"

fun rejections :: "promise list \<Rightarrow> exn list" where
  "rejections [] = []"
| "rejections ((k, Inl e) # ps) = e # rejections ps"
| "rejections ((k, Inr d) # ps) = rejections ps"

fun fulfilled :: "promise list \<Rightarrow> (kind \<times> document) list" where
  "fulfilled [] = []"
| "fulfilled ((k, Inl e) # ps) = fulfilled ps"
| "fulfilled ((k, Inr d) # ps) = (k, d) # fulfilled ps"

text \<open>
  \<^verbatim>\<open>await Promise.all(promises)\<close> throws the reason of the promise that was rejected
  first; when none is rejected, every task has stored its document in \<^verbatim>\<open>results\<close>.
\<close>

definition Promise_all :: "env \<Rightarrow> promise list \<Rightarrow> exn + results" where
  "Promise_all env ps =
     (let rs = rejections ps
      in if rs = []
         then Inr \<lparr>cv = map_of (fulfilled ps) CV,
                   coverLetter = map_of (fulfilled ps) CoverLetter,
                   email = map_of (fulfilled ps) Email\<rparr>
         else Inl (rs ! (first_rejected env mod length rs)))"

definition unlinkSync :: "string \<Rightarrow> unit io" where
  "unlinkSync p w =
     (case files w p of
        None \<Rightarrow>
          (Inl (Error (''ENOENT: no such file or directory, unlink '' @ [CHR 0x27] @ p
                       @ [CHR 0x27])),
           issue (UnlinkFile p) w)
      | Some _ \<Rightarrow> (Inr (), issue (UnlinkFile p) (w\<lparr>files := (files w)(p := None)\<rparr>)))"

text \<open>The body of the \<^verbatim>\<open>try\<close> block.\<close>

definition try_block :: "env \<Rightarrow> request \<Rightarrow> results io" where
  "try_block env req =
     bind_io (prepare env req) (\<lambda>ctx.
     bind_io (fan_out env ctx) (\<lambda>promises.
     bind_io (lift_io (Promise_all env promises)) (\<lambda>res.
     bind_io (unlinkSync (path (cvFile ctx))) (\<lambda>_.
       return_io res))))"

definition tailor_cv :: "env \<Rightarrow> request \<Rightarrow> world \<Rightarrow> response \<times> world" where
  "tailor_cv env req w =
     (case try_block env req w of
        (Inr res, w') \<Rightarrow> (Response 200 (Success res), w')
      | (Inl err, w') \<Rightarrow> (Response 500 (Failure (message err)), w'))"

section \<open>The form of the client\<close>

text \<open>
  The submit handler of \<^verbatim>\<open>public/app.js\<close> checks the form before it sends anything:
  the state of the form is the text of the job description, the chosen files, the three
  check boxes and the selected format.
\<close>

record form =
  jobDescription_value :: string
  cvFile_files :: "file_info list"
  generateCV_checked :: bool
  generateCoverLetter_checked :: bool
  generateEmail_checked :: bool
  selectedFormat :: string

text \<open>
  What a submission does: a toast and nothing else, or a \<^verbatim>\<open>fetch\<close> of the route with
  the three form fields (the options are sent as their \<^verbatim>\<open>JSON.stringify\<close> text).
\<close>

datatype submission =
    Toast string
  | Fetch string file_info json

definition submit :: "form \<Rightarrow> submission" where
  "submit f =
     (if trim (jobDescription_value f) = [] then Toast ''Please enter a job description.''
      else case cvFile_files f of
             [] \<Rightarrow> Toast ''Please upload your CV.''
           | file0 # _ \<Rightarrow>
               if \<not> generateCV_checked f \<and> \<not> generateCoverLetter_checked f
                  \<and> \<not> generateEmail_checked f
               then Toast ''Please select at least one document to generate.''
               else Fetch (trim (jobDescription_value f)) file0
                      (JObj [(''cv'', JBool (generateCV_checked f)),
                             (''coverLetter'', JBool (generateCoverLetter_checked f)),
                             (''email'', JBool (generateEmail_checked f)),
                             (''format'', JStr (selectedFormat f))]))"

section \<open>A concrete environment\<close>

text \<open>
  One environment and one upload on which the model can be run: the extractors return
  the text of a small CV, the completion endpoint answers the resume prompt (the call
  with 4000 tokens) with fenced JSON and the other two prompts with plain text, the
  parser knows the resume and a few option strings, and the rendering libraries
  return the first bytes of a ZIP archive and of a PDF file.
\<close>

definition ascii_upper :: "string \<Rightarrow> string" where
  "ascii_upper s =
     map (\<lambda>c. let n = of_char c :: nat
              in if 97 \<le> n \<and> n \<le> 122 then char_of (n - 32) else c) s"

definition example_resume_json :: string where
  \<open>example_resume_json = ''{"personalInfo":{"fullName":"Jane Doe","email":"jane@x.com","phone":"555-1234","location":"Boston"},"summary":"Backend engineer.","experience":[{"title":"Engineer","company":"Acme","location":"Boston","dates":"2020-2024","achievements":["Built APIs"]}],"skills":["Go","SQL"],"education":[{"degree":"BSc","institution":"MIT","dates":"2016-2020"}]}''\<close>

definition example_resume :: json where
  "example_resume =
     JObj [(''personalInfo'',
              JObj [(''fullName'', JStr ''Jane Doe''), (''email'', JStr ''jane@x.com''),
                    (''phone'', JStr ''555-1234''), (''location'', JStr ''Boston'')]),
           (''summary'', JStr ''Backend engineer.''),
           (''experience'',
              JArr [JObj [(''title'', JStr ''Engineer''), (''company'', JStr ''Acme''),
                          (''location'', JStr ''Boston''), (''dates'', JStr ''2020-2024''),
                          (''achievements'', JArr [JStr ''Built APIs''])]]),
           (''skills'', JArr [JStr ''Go'', JStr ''SQL'']),
           (''education'',
              JArr [JObj [(''degree'', JStr ''BSc''), (''institution'', JStr ''MIT''),
                          (''dates'', JStr ''2016-2020'')]])]"

text \<open>An answer in which the candidate's name is an object with a property \<^verbatim>\<open>toString\<close>.\<close>

definition odd_name_json :: string where
  \<open>odd_name_json = ''{"personalInfo":{"fullName":{"toString":1}}}''\<close>

definition odd_name_resume :: json where
  "odd_name_resume =
     JObj [(''personalInfo'', JObj [(''fullName'', JObj [(''toString'', JNum ''1'')])])]"

definition example_options :: "bool \<Rightarrow> bool \<Rightarrow> bool \<Rightarrow> string \<Rightarrow> json" where
  "example_options c l e fmt =
     JObj [(''cv'', JBool c), (''coverLetter'', JBool l), (''email'', JBool e),
           (''format'', JStr fmt)]"

definition example_parse :: "string \<Rightarrow> exn + json" where
  \<open>example_parse s =
     (if s = example_resume_json then Inr example_resume
      else if s = ''{"cv":true,"coverLetter":false,"email":false,"format":"docx"}''
        then Inr (example_options True False False ''docx'')
      else if s = ''{"cv":false,"coverLetter":true,"email":false,"format":"docx"}''
        then Inr (example_options False True False ''docx'')
      else if s = ''{"cv":false,"coverLetter":true,"email":false,"format":"pdf"}''
        then Inr (example_options False True False ''pdf'')
      else if s = ''{"cv":false,"coverLetter":false,"email":false,"format":"docx"}''
        then Inr (example_options False False False ''docx'')
      else if s = ''{"cv":true,"coverLetter":true,"email":true,"format":"docx"}''
        then Inr (example_options True True True ''docx'')
      else if s = ''{"cv":true,"coverLetter":true,"email":true,"format":"pdf"}''
        then Inr (example_options True True True ''pdf'')
      else if s = odd_name_json then Inr odd_name_resume
      else Inl (SyntaxError ''Unexpected token in JSON''))\<close>

definition example_env :: "string \<Rightarrow> env" where
  "example_env resume_response =
     \<lparr>pdfParse = (\<lambda>buffer. Inr ''Jane Doe, jane@x.com, 555-1234, Boston''),
      extractRawText = (\<lambda>buffer. Inr ''Jane Doe, jane@x.com, 555-1234, Boston''),
      chat_completions = (\<lambda>systemPrompt userPrompt maxTokens.
         if maxTokens = 4000 then Inr resume_response
         else if maxTokens = 2048 then Inr ''Dear Hiring Manager, I am writing to apply.''
         else Inr ''Please find my application attached.''),
      JSON_parse = example_parse,
      toUpperCase = ascii_upper,
      Packer_toBuffer = (\<lambda>doc. Inr [0x50, 0x4B, 0x03, 0x04]),
      PDFDocument_end = (\<lambda>cmds. Inr [0x25, 0x50, 0x44, 0x46]),
      first_rejected = 0\<rparr>"

definition fenced_resume :: string where
  "fenced_resume = ''```json\<newline>'' @ example_resume_json @ ''\<newline>```''"

definition example_path :: string where
  "example_path = ''uploads/1730628000000-123456789.docx''"

definition example_upload :: "byte list" where
  "example_upload = [0x50, 0x4B, 0x03, 0x04, 0x14, 0x00]"

definition example_world :: world where
  "example_world = \<lparr>files = [example_path \<mapsto> example_upload], calls = []\<rparr>"

definition docx_mime :: string where
  "docx_mime = ''application/vnd.openxmlformats-officedocument.wordprocessingml.document''"

definition example_request :: "string \<Rightarrow> string \<Rightarrow> request" where
  "example_request job opts =
     \<lparr>body_jobDescription = Some job, body_options = Some opts,
      req_file = Some \<lparr>originalname = ''cv.docx'', mimetype = docx_mime,
                       path = example_path\<rparr>\<rparr>"

text \<open>Requests for that upload: a job description and the text of the options.\<close>

definition job_text :: string where
  "job_text = ''Senior Backend Engineer''"

definition request_cv_docx :: request where
  \<open>request_cv_docx =
     example_request job_text ''{"cv":true,"coverLetter":false,"email":false,"format":"docx"}''\<close>

definition request_letter_docx :: request where
  \<open>request_letter_docx =
     example_request job_text ''{"cv":false,"coverLetter":true,"email":false,"format":"docx"}''\<close>


definition request_nothing_selected :: request where
  \<open>request_nothing_selected =
     example_request job_text ''{"cv":false,"coverLetter":false,"email":false,"format":"docx"}''\<close>


definition request_all_pdf :: request where
  \<open>request_all_pdf =
     example_request job_text ''{"cv":true,"coverLetter":true,"email":true,"format":"pdf"}''\<close>

definition request_empty_job :: request where
  \<open>request_empty_job =
     example_request [] ''{"cv":false,"coverLetter":true,"email":false,"format":"pdf"}''\<close>

definition request_bad_options :: request where
  "request_bad_options = example_request job_text ''cv''"



text \<open>The same request without its file, and a form with nothing filled in.\<close>

definition request_without_file :: request where
  "request_without_file = request_cv_docx\<lparr>req_file := None\<rparr>"

definition empty_form :: form where
  "empty_form =
     \<lparr>jobDescription_value = ''  '', cvFile_files = [], generateCV_checked = False,
      generateCoverLetter_checked = False, generateEmail_checked = False,
      selectedFormat = ''docx''\<rparr>"

text \<open>
  Two answers of the model that are not the fenced JSON: a refusal in plain words, and
  the JSON with a fence marker in its middle.
\<close>

definition refusal :: string where
  "refusal = ''Sorry, I cannot help with that.''"

definition inner_fence :: string where
  "inner_fence = take 1 example_resume_json @ ''```'' @ drop 1 example_resume_json"

text \<open>Which calls of the log are network calls, and which are text extractions.\<close>

fun is_completion :: "call \<Rightarrow> bool" where
  "is_completion (ChatCompletion systemPrompt userPrompt maxTokens) = True"
| "is_completion _ = False"

fun is_extraction :: "call \<Rightarrow> bool" where
  "is_extraction (PdfParse buffer) = True"
| "is_extraction (ExtractRawText buffer) = True"
| "is_extraction _ = False"

text \<open>
  The other calls of the log: the removal of the upload, the resume completion (the
  call with 4000 tokens) and the completions of the cover letter and of the email (2048
  and 1024 tokens).
\<close>

fun is_unlink :: "call \<Rightarrow> bool" where
  "is_unlink (UnlinkFile p) = True"
| "is_unlink _ = False"

fun is_resume_call :: "call \<Rightarrow> bool" where
  "is_resume_call (ChatCompletion systemPrompt userPrompt maxTokens) = (maxTokens = 4000)"
| "is_resume_call _ = False"

fun is_task_call :: "call \<Rightarrow> bool" where
  "is_task_call (ChatCompletion systemPrompt userPrompt maxTokens) =
     (maxTokens = 2048 \<or> maxTokens = 1024)"
| "is_task_call _ = False"

text \<open>A step that leaves the upload directory alone and adds to the log only calls of one sort.\<close>

definition logs_only :: "(call \<Rightarrow> bool) \<Rightarrow> (world \<Rightarrow> 'a \<times> world) \<Rightarrow> bool" where
  "logs_only P m =
     (\<forall>w. files (snd (m w)) = files w
          \<and> (\<exists>cs. calls (snd (m w)) = calls w @ cs \<and> list_all P cs))"

section \<open>Properties of the Base64 transport\<close>

lemma sextet_bounds:
  fixes a b c :: nat
  assumes "a < 256" "b < 256" "c < 256"
  shows "a div 4 < 64" "a mod 4 * 16 + b div 16 < 64" "b mod 16 * 4 + c div 64 < 64"
    "c mod 64 < 64" "b mod 16 * 4 < 64" "a mod 4 * 16 < 64"
proof -
  have 1: "a mod 4 < 4" "b mod 16 < 16" by simp_all
  have 2: "b div 16 < 16" "c div 64 < 4" "a div 4 < 64"
    using assms by (simp_all add: less_mult_imp_div_less)
  show "a div 4 < 64" by (rule 2)
  show "a mod 4 * 16 + b div 16 < 64" using 1 2 by linarith
  show "b mod 16 * 4 + c div 64 < 64" using 1 2 by linarith
  show "c mod 64 < 64" by simp
  show "b mod 16 * 4 < 64" using 1 by linarith
  show "a mod 4 * 16 < 64" using 1 by linarith
qed

lemma regroup1: "b < 256 \<Longrightarrow> a div 4 * 4 + (a mod 4 * 16 + b div 16) div 16 = (a::nat)"
proof -
  assume "b < 256"
  then have "b div 16 div 16 = 0" by (simp add: div_mult2_eq [symmetric])
  then show ?thesis by simp
qed

lemma regroup2: "b < 256 \<Longrightarrow> c < 256 \<Longrightarrow>
    (a mod 4 * 16 + b div 16) mod 16 * 16 + (b mod 16 * 4 + c div 64) div 4 = (b::nat)"
proof -
  assume b: "b < 256" and c: "c < 256"
  from c have "c div 64 div 4 = 0" by (simp add: div_mult2_eq [symmetric])
  then have 1: "(b mod 16 * 4 + c div 64) div 4 = b mod 16" by simp
  from b have "b div 16 < 16" by (simp add: less_mult_imp_div_less)
  then have 2: "(a mod 4 * 16 + b div 16) mod 16 = b div 16" by simp
  show ?thesis unfolding 1 2 by simp
qed

lemma regroup3: "c < 256 \<Longrightarrow> (b mod 16 * 4 + c div 64) mod 4 * 64 + c mod 64 = (c::nat)"
proof -
  assume "c < 256"
  then have "c div 64 < 4" by (simp add: less_mult_imp_div_less)
  then have "(b mod 16 * 4 + c div 64) mod 4 = c div 64" by simp
  then show ?thesis by simp
qed


lemma sextets_bound: "\<forall>a \<in> set bs. a < 256 \<Longrightarrow> \<forall>s \<in> set (sextets bs). s < 64"
proof (induction bs rule: sextets.induct)
  case (1 a b c rest)
  then have "a < 256" "b < 256" "c < 256" by simp_all
  from sextet_bounds [OF this] 1 show ?case by simp
next
  case (2 a b)
  then have "a < 256" "b < 256" "b < 256" by simp_all
  from sextet_bounds [OF this] show ?case by simp
next
  case (3 a)
  then have "a < 256" "a < 256" "a < 256" by simp_all
  from sextet_bounds [OF this] show ?case by simp
qed simp

lemma sextets_to_binary_sextets:
  "\<forall>a \<in> set bs. a < 256 \<Longrightarrow> sextets_to_binary (sextets bs) = map char_of bs"
proof (induction bs rule: sextets.induct)
  case (1 a b c rest)
  then have "b < 256" "c < 256" by simp_all
  with 1 show ?case by (simp add: regroup1 regroup2 regroup3)
next
  case (2 a b)
  then have b: "b < 256" by simp
  have "(a mod 4 * 16 + b div 16) mod 16 * 16 + (b mod 16 * 4) div 4 = b"
    using regroup2 [of b 0 a] b by simp
  with b show ?case by (simp add: regroup1)
next
  case (3 a)
  have "a div 4 * 4 + (a mod 4 * 16) div 16 = a" using regroup1 [of 0 a] by simp
  then show ?case by simp
qed simp

lemma length_sextets:
  "length (sextets bs) mod 4 \<noteq> 1 \<and> (length (sextets bs) + length (padding (length bs))) mod 4 = 0"
proof (induction bs rule: sextets.induct)
  case (1 a b c rest)
  have "padding (length (a # b # c # rest)) = padding (length rest)"
    by (simp add: padding_def)
  with 1 show ?case by (simp add: mod_Suc)
qed (simp_all add: padding_def)

lemma index_of_nth: "distinct xs \<Longrightarrow> n < length xs \<Longrightarrow> index_of (xs ! n) xs = Some n"
proof (induction xs arbitrary: n)
  case Nil
  then show ?case by simp
next
  case (Cons x xs)
  show ?case
  proof (cases n)
    case 0
    then show ?thesis by simp
  next
    case (Suc m)
    with Cons.prems have "xs ! m \<noteq> x" "m < length xs" "distinct xs" by auto
    with Cons.IH [of m] Suc show ?thesis by simp
  qed
qed

lemma distinct_base64_alphabet: "distinct base64_alphabet"
  by (simp add: base64_alphabet_def)

lemma length_base64_alphabet: "length base64_alphabet = 64"
  by (simp add: base64_alphabet_def)

lemma base64_index_char: "n < 64 \<Longrightarrow> base64_index (base64_char n) = Some n"
  unfolding base64_index_def base64_char_def
  by (rule index_of_nth) (simp_all add: distinct_base64_alphabet length_base64_alphabet)

lemma base64_char_in_alphabet: "n < 64 \<Longrightarrow> base64_char n \<in> set base64_alphabet"
  unfolding base64_char_def by (rule nth_mem) (simp add: length_base64_alphabet)

lemma alphabet_plain:
  "c \<in> set base64_alphabet \<Longrightarrow> c \<noteq> CHR ''='' \<and> \<not> ascii_whitespace c"
  by (auto simp add: base64_alphabet_def ascii_whitespace_def)

lemma those_base64_index:
  "\<forall>s \<in> set ss. s < 64 \<Longrightarrow> those (map base64_index (map base64_char ss)) = Some ss"
  by (induction ss) (simp_all add: base64_index_char)

lemma drop_padding_body:
  assumes "CHR ''='' \<notin> set body" and "p = [] \<or> p = ''='' \<or> p = ''==''"
  shows "rev (drop_padding_rev (rev (body @ p))) = body"
proof -
  have plain: "drop_padding_rev r = r" if "CHR ''='' \<notin> set r" for r
    using that by (cases r rule: drop_padding_rev.cases) auto
  have one: "drop_padding_rev (CHR ''='' # r) = r" if "CHR ''='' \<notin> set r" for r
    using that by (cases r) auto
  from assms(2) consider "p = []" | "p = ''=''" | "p = ''==''" by blast
  then show ?thesis
  proof cases
    case 1
    with assms(1) show ?thesis by (simp add: plain)
  next
    case 2
    with assms(1) show ?thesis by (simp add: one)
  next
    case 3
    then show ?thesis by simp
  qed
qed

lemma padding_cases: "padding n = [] \<or> padding n = ''='' \<or> padding n = ''==''"
  by (simp add: padding_def)

lemma atob_toString_base64:
  "atob (toString_base64 buf) = Some (map (\<lambda>a. char_of (unat a)) buf)"
proof -
  define ss where "ss = sextets (map unat buf)"
  define body where "body = map base64_char ss"
  define p where "p = padding (length buf)"
  have bytes: "\<forall>a \<in> set (map unat buf). a < 256"
  proof
    fix a assume "a \<in> set (map unat buf)"
    then obtain w :: byte where "a = unat w" by auto
    then show "a < 256" using unsigned_less [of w, where 'a = nat] by simp
  qed
  have ss: "\<forall>s \<in> set ss. s < 64"
    unfolding ss_def by (rule sextets_bound [OF bytes])
  have body_plain: "\<forall>c \<in> set body. c \<noteq> CHR ''='' \<and> \<not> ascii_whitespace c"
    unfolding body_def using ss base64_char_in_alphabet alphabet_plain by auto
  have p_plain: "\<forall>c \<in> set p. \<not> ascii_whitespace c"
    unfolding p_def by (simp add: padding_def ascii_whitespace_def)
  have filt: "filter (\<lambda>c. \<not> ascii_whitespace c) (body @ p) = body @ p"
    using body_plain p_plain by (simp add: filter_id_conv)
  have len: "length body mod 4 \<noteq> 1" "length (body @ p) mod 4 = 0"
    using length_sextets [of "map unat buf"] by (simp_all add: body_def ss_def p_def)
  have strip: "rev (drop_padding_rev (rev (body @ p))) = body"
    by (rule drop_padding_body) (use body_plain padding_cases in \<open>auto simp: p_def\<close>)
  have idx: "those (map base64_index body) = Some ss"
    unfolding body_def by (rule those_base64_index [OF ss])
  have "atob (body @ p) = Some (sextets_to_binary ss)"
    unfolding atob_def Let_def filt using len strip by (simp add: idx)
  moreover have "sextets_to_binary ss = map char_of (map unat buf)"
    unfolding ss_def by (rule sextets_to_binary_sextets [OF bytes])
  ultimately show ?thesis
    by (simp add: toString_base64_def body_def ss_def p_def comp_def)
qed

lemma byte_of_char_of: "(of_nat (of_char (char_of (unat a)) :: nat) :: byte) = a"
  using unsigned_less [of a, where 'a = nat] by simp

text \<open>
  Claim C9. Whatever bytes a renderer returns, encoding them as the \<^verbatim>\<open>fileData\<close> field
  (\<^verbatim>\<open>toString("base64")\<close>) and decoding that text as \<^verbatim>\<open>downloadFile\<close> does
  (\<^verbatim>\<open>atob\<close>, then one byte per character) gives back exactly the original bytes.
\<close>

theorem base64_round_trip: "base64_to_bytes (toString_base64 buf) = Some buf"
  using byte_of_char_of
  by (simp add: base64_to_bytes_def atob_toString_base64 comp_def map_idI)

text \<open>
  So \<^verbatim>\<open>downloadFile\<close> saves exactly the rendered bytes, under the name it is given; an
  empty buffer would give an empty, falsy text and only a message.
\<close>

lemma downloadFile_saves:
  assumes "buf \<noteq> []"
  shows "\<exists>mime. downloadFile (toString_base64 buf) name format = Saved buf mime name"
proof -
  from assms have "sextets (map unat buf) \<noteq> []"
    by (cases "map unat buf" rule: sextets.cases) auto
  then have "toString_base64 buf \<noteq> []" by (simp add: toString_base64_def)
  with byte_of_char_of show ?thesis
    by (simp add: downloadFile_def base64_to_bytes_def atob_toString_base64 comp_def map_idI)
qed


section \<open>Steps and their sequencing\<close>

lemma bind_exn_Inr: "bind_exn m f = Inr y \<longleftrightarrow> (\<exists>x. m = Inr x \<and> f x = Inr y)"
  by (cases m) (simp_all add: bind_exn_def)

lemma bind_exn_Inl:
  "bind_exn m f = Inl e \<longleftrightarrow> m = Inl e \<or> (\<exists>x. m = Inr x \<and> f x = Inl e)"
  by (cases m) (simp_all add: bind_exn_def)

lemma bind_io_Inr:
  "bind_io m f w = (Inr y, w') \<longleftrightarrow> (\<exists>x w1. m w = (Inr x, w1) \<and> f x w1 = (Inr y, w'))"
  by (auto simp add: bind_io_def split: prod.splits sum.splits)

lemma bind_io_Inl:
  "bind_io m f w = (Inl e, w') \<longleftrightarrow>
     m w = (Inl e, w') \<or> (\<exists>x w1. m w = (Inr x, w1) \<and> f x w1 = (Inl e, w'))"
  by (auto simp add: bind_io_def split: prod.splits sum.splits)

lemma lift_io_eq: "lift_io r w = (r', w') \<longleftrightarrow> r = r' \<and> w' = w"
  by (auto simp add: lift_io_def)

lemma return_io_eq: "return_io x w = (r, w') \<longleftrightarrow> r = Inr x \<and> w' = w"
  by (auto simp add: return_io_def)

section \<open>The route\<close>

lemma tailor_cv_cases:
  "(\<exists>res w'. try_block env req w = (Inr res, w') \<and>
       tailor_cv env req w = (Response 200 (Success res), w'))
   \<or> (\<exists>e w'. try_block env req w = (Inl e, w') \<and>
       tailor_cv env req w = (Response 500 (Failure (message e)), w'))"
  by (cases "try_block env req w" rule: prod.exhaust [case_names Pair])
     (auto simp add: tailor_cv_def split: sum.splits)

lemma tailor_cv_success:
  "fst (tailor_cv env req w) = Response 200 (Success res) \<Longrightarrow>
     \<exists>w'. try_block env req w = (Inr res, w')"
  using tailor_cv_cases [of env req w] by auto

lemma try_block_Inr:
  assumes "try_block env req w = (Inr res, w')"
  shows "\<exists>ctx w1 ps w2. prepare env req w = (Inr ctx, w1) \<and> fan_out env ctx w1 = (Inr ps, w2)
           \<and> Promise_all env ps = Inr res \<and> unlinkSync (path (cvFile ctx)) w2 = (Inr (), w')"
  using assms unfolding try_block_def
  by (auto simp add: bind_io_Inr lift_io_eq return_io_eq)

lemma prepare_Inr:
  assumes "prepare env req w = (Inr ctx, w1)"
  shows "\<exists>f w0 personalInfo.
           JSON_parse env (text_of (body_options req)) = Inr (options ctx)
         \<and> req_file req = Some f \<and> cvFile ctx = f
         \<and> jobDescription ctx = body_jobDescription req
         \<and> parseCVContent env (path f) (mimetype f) w = (Inr (cvContent ctx), w0)
         \<and> generateTailoredCV env (cvContent ctx) (body_jobDescription req) w0
             = (Inr (tailoredCVResponse ctx), w1)
         \<and> JSON_parse env (resume_json_text (tailoredCVResponse ctx)) = Inr (cvData ctx)
         \<and> get_prop (Some (cvData ctx)) ''personalInfo'' = Inr personalInfo
         \<and> get_prop personalInfo ''fullName'' = Inr (candidateName ctx)"
  using assms unfolding prepare_def
  by (auto simp add: bind_io_Inr lift_io_eq return_io_eq bind_exn_Inr split: option.splits)

lemma Promise_all_Inr:
  "Promise_all env ps = Inr res \<longleftrightarrow>
     rejections ps = [] \<and>
     res = \<lparr>cv = map_of (fulfilled ps) CV, coverLetter = map_of (fulfilled ps) CoverLetter,
            email = map_of (fulfilled ps) Email\<rparr>"
  by (auto simp add: Promise_all_def Let_def)

lemma Promise_all_Inl:
  "Promise_all env ps = Inl e \<Longrightarrow> e \<in> set (rejections ps)"
  by (auto simp add: Promise_all_def Let_def split: if_splits)

lemma cv_task_world: "snd (cv_task env ctx w) = w" "fst (cv_task env ctx w) = fst (cv_task env ctx w0)"
  by (simp_all add: cv_task_def)

lemma coverLetter_task_fst:
  "fst (coverLetter_task env ctx w) = fst (coverLetter_task env ctx w0)"
  by (simp add: coverLetter_task_def generateCoverLetter_def callDeepSeek_def bind_io_def
      lift_io_def split: sum.splits)

lemma email_task_fst: "fst (email_task env ctx w) = fst (email_task env ctx w0)"
  by (simp add: email_task_def generateApplicationEmail_def callDeepSeek_def bind_io_def
      lift_io_def split: sum.splits)

lemma spawn_eq:
  "spawn b k task w = (r, w') \<longleftrightarrow>
     (if b then r = Inr [(k, fst (task w))] \<and> w' = snd (task w) else r = Inr [] \<and> w' = w)"
  by (auto simp add: spawn_def split: prod.splits)

lemma fan_out_Inr:
  assumes "fan_out env ctx w = (Inr ps, w')"
  shows "\<exists>sel_cv sel_coverLetter sel_email.
           get_prop (Some (options ctx)) ''cv'' = Inr sel_cv
         \<and> get_prop (Some (options ctx)) ''coverLetter'' = Inr sel_coverLetter
         \<and> get_prop (Some (options ctx)) ''email'' = Inr sel_email
         \<and> ps = (if truthy sel_cv then [(CV, fst (cv_task env ctx w))] else [])
              @ (if truthy sel_coverLetter
                 then [(CoverLetter, fst (coverLetter_task env ctx w))] else [])
              @ (if truthy sel_email then [(Email, fst (email_task env ctx w))] else [])"
proof -
  from assms obtain sel_cv sel_coverLetter sel_email p1 p2 p3 w1 w2 where
    sel: "get_prop (Some (options ctx)) ''cv'' = Inr sel_cv"
      "get_prop (Some (options ctx)) ''coverLetter'' = Inr sel_coverLetter"
      "get_prop (Some (options ctx)) ''email'' = Inr sel_email"
    and s1: "spawn (truthy sel_cv) CV (cv_task env ctx) w = (Inr p1, w1)"
    and s2: "spawn (truthy sel_coverLetter) CoverLetter (coverLetter_task env ctx) w1 = (Inr p2, w2)"
    and s3: "spawn (truthy sel_email) Email (email_task env ctx) w2 = (Inr p3, w')"
    and ps: "ps = p1 @ p2 @ p3"
    unfolding fan_out_def by (auto simp add: bind_io_Inr lift_io_eq return_io_eq)
  from s1 have p1: "p1 = (if truthy sel_cv then [(CV, fst (cv_task env ctx w))] else [])"
    by (auto simp add: spawn_eq split: if_splits)
  from s2 have p2: "p2 = (if truthy sel_coverLetter
      then [(CoverLetter, fst (coverLetter_task env ctx w))] else [])"
    using coverLetter_task_fst [of env ctx w1 w] by (auto simp add: spawn_eq split: if_splits)
  from s3 have p3: "p3 = (if truthy sel_email then [(Email, fst (email_task env ctx w))] else [])"
    using email_task_fst [of env ctx w2 w] by (auto simp add: spawn_eq split: if_splits)
  show ?thesis using sel ps p1 p2 p3 by blast
qed

lemma selected_fulfilled:
  assumes "rejections ps = []"
    and "ps = (if a then [(CV, oa)] else []) @ (if b then [(CoverLetter, ob)] else [])
              @ (if c then [(Email, oc)] else [])"
  shows "(map_of (fulfilled ps) CV = (if a then Some (projr oa) else None) \<and> (a \<longrightarrow> \<not> isl oa))
       \<and> (map_of (fulfilled ps) CoverLetter = (if b then Some (projr ob) else None)
            \<and> (b \<longrightarrow> \<not> isl ob))
       \<and> (map_of (fulfilled ps) Email = (if c then Some (projr oc) else None) \<and> (c \<longrightarrow> \<not> isl oc))"
  using assms by (cases oa; cases ob; cases oc) (auto split: if_splits)


lemma get_prop_total:
  "get_prop (Some j) k = Inr v \<Longrightarrow> \<exists>v'. get_prop (Some j) k' = Inr v'"
  by (cases j) simp_all

lemma read_text_Inr:
  "read_text v k = Inr t \<longleftrightarrow> (\<exists>x. get_prop v k = Inr x \<and> ToString x = Inr t)"
  by (simp add: read_text_def bind_exn_Inr)

lemma ToString_text: "ToString (Some (JStr s)) = Inr s"
  by (simp add: ToString_def)

lemma cv_task_Inr:
  assumes "fst (cv_task env ctx w) = Inr d"
  shows "\<exists>format name extension. get_prop (Some (options ctx)) ''format'' = Inr format
           \<and> ToString (candidateName ctx) = Inr name \<and> ToString format = Inr extension
           \<and> fileName d = name @ ''_CV.'' @ extension
           \<and> preview d = tailoredCVResponse ctx"
  using assms unfolding cv_task_def by (auto simp add: bind_exn_Inr read_text_Inr)

lemma coverLetter_task_Inr:
  assumes "fst (coverLetter_task env ctx w) = Inr d"
  shows "\<exists>format name extension. get_prop (Some (options ctx)) ''format'' = Inr format
           \<and> ToString (candidateName ctx) = Inr name \<and> ToString format = Inr extension
           \<and> fileName d = name @ ''_Cover_Letter.'' @ extension"
  using assms unfolding coverLetter_task_def
  by (auto simp add: bind_exn_Inr read_text_Inr split: prod.splits sum.splits)

lemma email_task_Inr:
  assumes "fst (email_task env ctx w) = Inr d"
  shows "\<exists>format name extension. get_prop (Some (options ctx)) ''format'' = Inr format
           \<and> ToString (candidateName ctx) = Inr name \<and> ToString format = Inr extension
           \<and> fileName d = name @ ''_Email.'' @ extension"
  using assms unfolding email_task_def
  by (auto simp add: bind_exn_Inr read_text_Inr split: prod.splits sum.splits)

text \<open>
  Claim C7. A successful response holds a document for exactly the kinds that the parsed
  options select (by truthiness), and the file name of each is the text of
  \<^verbatim>\<open>cvData.personalInfo.fullName\<close>, then \<^verbatim>\<open>_CV.\<close>, \<^verbatim>\<open>_Cover_Letter.\<close> or
  \<^verbatim>\<open>_Email.\<close>, then the text of \<^verbatim>\<open>options.format\<close>. The text of a name or of a
  format that is a string is that string (\<open>ToString_text\<close>).
\<close>

theorem response_documents:
  assumes "fst (tailor_cv env req w) = Response 200 (Success res)"
  shows "\<exists>opts sel_cv sel_coverLetter sel_email format f content w0 resp w1 data personalInfo
            fullName.
      JSON_parse env (text_of (body_options req)) = Inr opts
    \<and> get_prop (Some opts) ''cv'' = Inr sel_cv
    \<and> get_prop (Some opts) ''coverLetter'' = Inr sel_coverLetter
    \<and> get_prop (Some opts) ''email'' = Inr sel_email
    \<and> get_prop (Some opts) ''format'' = Inr format
    \<and> req_file req = Some f
    \<and> parseCVContent env (path f) (mimetype f) w = (Inr content, w0)
    \<and> generateTailoredCV env content (body_jobDescription req) w0 = (Inr resp, w1)
    \<and> JSON_parse env (resume_json_text resp) = Inr data
    \<and> get_prop (Some data) ''personalInfo'' = Inr personalInfo
    \<and> get_prop personalInfo ''fullName'' = Inr fullName
    \<and> (cv res \<noteq> None \<longleftrightarrow> truthy sel_cv)
    \<and> (coverLetter res \<noteq> None \<longleftrightarrow> truthy sel_coverLetter)
    \<and> (email res \<noteq> None \<longleftrightarrow> truthy sel_email)
    \<and> (\<forall>d. cv res = Some d \<longrightarrow>
          (\<exists>name extension. ToString fullName = Inr name \<and> ToString format = Inr extension
             \<and> fileName d = name @ ''_CV.'' @ extension))
    \<and> (\<forall>d. coverLetter res = Some d \<longrightarrow>
          (\<exists>name extension. ToString fullName = Inr name \<and> ToString format = Inr extension
             \<and> fileName d = name @ ''_Cover_Letter.'' @ extension))
    \<and> (\<forall>d. email res = Some d \<longrightarrow>
          (\<exists>name extension. ToString fullName = Inr name \<and> ToString format = Inr extension
             \<and> fileName d = name @ ''_Email.'' @ extension))"
proof -
  from tailor_cv_success [OF assms] obtain w' where "try_block env req w = (Inr res, w')" ..
  from try_block_Inr [OF this] obtain ctx w1 ps w2 where
    prep: "prepare env req w = (Inr ctx, w1)" and fan: "fan_out env ctx w1 = (Inr ps, w2)"
    and all: "Promise_all env ps = Inr res" by blast
  from prepare_Inr [OF prep] obtain f w0 personalInfo where
    p: "JSON_parse env (text_of (body_options req)) = Inr (options ctx)"
      "req_file req = Some f"
      "parseCVContent env (path f) (mimetype f) w = (Inr (cvContent ctx), w0)"
      "generateTailoredCV env (cvContent ctx) (body_jobDescription req) w0
         = (Inr (tailoredCVResponse ctx), w1)"
      "JSON_parse env (resume_json_text (tailoredCVResponse ctx)) = Inr (cvData ctx)"
      "get_prop (Some (cvData ctx)) ''personalInfo'' = Inr personalInfo"
      "get_prop personalInfo ''fullName'' = Inr (candidateName ctx)"
    by blast
  from fan_out_Inr [OF fan] obtain sel_cv sel_coverLetter sel_email where
    sel: "get_prop (Some (options ctx)) ''cv'' = Inr sel_cv"
      "get_prop (Some (options ctx)) ''coverLetter'' = Inr sel_coverLetter"
      "get_prop (Some (options ctx)) ''email'' = Inr sel_email"
    and ps: "ps = (if truthy sel_cv then [(CV, fst (cv_task env ctx w1))] else [])
              @ (if truthy sel_coverLetter
                 then [(CoverLetter, fst (coverLetter_task env ctx w1))] else [])
              @ (if truthy sel_email then [(Email, fst (email_task env ctx w1))] else [])"
    by blast
  from get_prop_total [OF sel(1)] obtain format where
    fmt: "get_prop (Some (options ctx)) ''format'' = Inr format" by blast
  from all have rej: "rejections ps = []"
    and res: "res = \<lparr>cv = map_of (fulfilled ps) CV,
                     coverLetter = map_of (fulfilled ps) CoverLetter,
                     email = map_of (fulfilled ps) Email\<rparr>"
    by (simp_all add: Promise_all_Inr)
  note sf = selected_fulfilled [OF rej ps]
  have cv: "cv res \<noteq> None \<longleftrightarrow> truthy sel_cv"
    and cl: "coverLetter res \<noteq> None \<longleftrightarrow> truthy sel_coverLetter"
    and em: "email res \<noteq> None \<longleftrightarrow> truthy sel_email"
    using sf by (simp_all add: res)
  have n1: "\<exists>name extension. ToString (candidateName ctx) = Inr name
      \<and> ToString format = Inr extension \<and> fileName d = name @ ''_CV.'' @ extension"
    if "cv res = Some d" for d
  proof -
    from that sf have "fst (cv_task env ctx w1) = Inr d"
      by (auto simp add: res split: if_splits)
    with cv_task_Inr [of env ctx w1 d] fmt show ?thesis by auto
  qed
  have n2: "\<exists>name extension. ToString (candidateName ctx) = Inr name
      \<and> ToString format = Inr extension \<and> fileName d = name @ ''_Cover_Letter.'' @ extension"
    if "coverLetter res = Some d" for d
  proof -
    from that sf have "fst (coverLetter_task env ctx w1) = Inr d"
      by (auto simp add: res split: if_splits)
    with coverLetter_task_Inr [of env ctx w1 d] fmt show ?thesis by auto
  qed
  have n3: "\<exists>name extension. ToString (candidateName ctx) = Inr name
      \<and> ToString format = Inr extension \<and> fileName d = name @ ''_Email.'' @ extension"
    if "email res = Some d" for d
  proof -
    from that sf have "fst (email_task env ctx w1) = Inr d"
      by (auto simp add: res split: if_splits)
    with email_task_Inr [of env ctx w1 d] fmt show ?thesis by auto
  qed
  from p sel fmt cv cl em n1 n2 n3 show ?thesis by blast
qed

text \<open>
  Two runs: a request for the CV alone as DOCX, and a request for all three kinds as
  PDF, whose response holds the three documents under their three names.
\<close>

theorem response_documents_witness:
  "fst (tailor_cv (example_env fenced_resume) request_cv_docx example_world)
     = Response 200 (Success
         \<lparr>cv = Some \<lparr>preview = fenced_resume, fileName = ''Jane Doe_CV.docx'',
                     fileData = ''UEsDBA==''\<rparr>,
          coverLetter = None, email = None\<rparr>)
   \<and> (\<exists>sel_cv sel_coverLetter sel_email fullName format name extension.
         truthy sel_cv \<and> \<not> truthy sel_coverLetter \<and> \<not> truthy sel_email
       \<and> ToString fullName = Inr name \<and> ToString format = Inr extension
       \<and> ''Jane Doe_CV.docx'' = name @ ''_CV.'' @ extension)
   \<and> fst (tailor_cv (example_env fenced_resume) request_all_pdf example_world)
     = Response 200 (Success
         \<lparr>cv = Some \<lparr>preview = fenced_resume, fileName = ''Jane Doe_CV.pdf'',
                     fileData = ''JVBERg==''\<rparr>,
          coverLetter = Some \<lparr>preview = ''Dear Hiring Manager, I am writing to apply.'',
                              fileName = ''Jane Doe_Cover_Letter.pdf'',
                              fileData = ''JVBERg==''\<rparr>,
          email = Some \<lparr>preview = ''Please find my application attached.'',
                        fileName = ''Jane Doe_Email.pdf'', fileData = ''JVBERg==''\<rparr>\<rparr>)
   \<and> (\<exists>sel_cv sel_coverLetter sel_email fullName format name extension.
         truthy sel_cv \<and> truthy sel_coverLetter \<and> truthy sel_email
       \<and> ToString fullName = Inr name \<and> ToString format = Inr extension
       \<and> ''Jane Doe_CV.pdf'' = name @ ''_CV.'' @ extension
       \<and> ''Jane Doe_Cover_Letter.pdf'' = name @ ''_Cover_Letter.'' @ extension
       \<and> ''Jane Doe_Email.pdf'' = name @ ''_Email.'' @ extension)"
proof -
  have run1: "fst (tailor_cv (example_env fenced_resume) request_cv_docx example_world)
     = Response 200 (Success
         \<lparr>cv = Some \<lparr>preview = fenced_resume, fileName = ''Jane Doe_CV.docx'',
                     fileData = ''UEsDBA==''\<rparr>,
          coverLetter = None, email = None\<rparr>)"
    by code_simp
  have run2: "fst (tailor_cv (example_env fenced_resume) request_all_pdf example_world)
     = Response 200 (Success
         \<lparr>cv = Some \<lparr>preview = fenced_resume, fileName = ''Jane Doe_CV.pdf'',
                     fileData = ''JVBERg==''\<rparr>,
          coverLetter = Some \<lparr>preview = ''Dear Hiring Manager, I am writing to apply.'',
                              fileName = ''Jane Doe_Cover_Letter.pdf'',
                              fileData = ''JVBERg==''\<rparr>,
          email = Some \<lparr>preview = ''Please find my application attached.'',
                        fileName = ''Jane Doe_Email.pdf'', fileData = ''JVBERg==''\<rparr>\<rparr>)"
    by code_simp
  from response_documents [OF run1]
  have one: "\<exists>sel_cv sel_coverLetter sel_email fullName format name extension.
         truthy sel_cv \<and> \<not> truthy sel_coverLetter \<and> \<not> truthy sel_email
       \<and> ToString fullName = Inr name \<and> ToString format = Inr extension
       \<and> ''Jane Doe_CV.docx'' = name @ ''_CV.'' @ extension"
    by simp blast
  from response_documents [OF run2]
  have three: "\<exists>sel_cv sel_coverLetter sel_email fullName format name extension.
         truthy sel_cv \<and> truthy sel_coverLetter \<and> truthy sel_email
       \<and> ToString fullName = Inr name \<and> ToString format = Inr extension
       \<and> ''Jane Doe_CV.pdf'' = name @ ''_CV.'' @ extension
       \<and> ''Jane Doe_Cover_Letter.pdf'' = name @ ''_Cover_Letter.'' @ extension
       \<and> ''Jane Doe_Email.pdf'' = name @ ''_Email.'' @ extension"
    by simp (metis sum.inject(2))
  from run1 one run2 three show ?thesis by (intro conjI)
qed





section \<open>Code fences\<close>

declare strip_fences.simps(2) [simp del]

lemma strip_fences_json:
  assumes "prefix ''```json'' (c # cs)"
  shows "strip_fences (c # cs) = strip_fences (drop 6 cs)"
  by (subst strip_fences.simps) (simp only: assms if_True)

lemma strip_fences_plain:
  assumes "\<not> prefix ''```json'' (c # cs)" and "prefix ''```'' (c # cs)"
  shows "strip_fences (c # cs) = strip_fences (drop 2 cs)"
  by (subst strip_fences.simps) (simp only: assms if_True if_False)

lemma strip_fences_copy:
  assumes "\<not> prefix ''```'' (c # cs)"
  shows "strip_fences (c # cs) = c # strip_fences cs"
proof -
  have "''```json'' = ''```'' @ ''json''" by simp
  with assms have "\<not> prefix ''```json'' (c # cs)"
    using append_prefixD [of "''```''" "''json''" "c # cs"] by metis
  with assms show ?thesis
    by (subst strip_fences.simps) (simp only: if_False)
qed

lemma strip_fences_head:
  assumes "\<not> prefix ''`'' s"
  shows "\<not> prefix ''`'' (strip_fences s)"
proof (cases s)
  case Nil
  then show ?thesis by simp
next
  case (Cons c cs)
  with assms have c: "c \<noteq> CHR 0x60" by auto
  then have "\<not> prefix ''```'' (c # cs)" by auto
  from strip_fences_copy [OF this] c show ?thesis unfolding Cons by auto
qed

lemma strip_fences_two:
  assumes "\<not> prefix ''``'' s"
  shows "\<not> prefix ''``'' (strip_fences s)"
proof (cases s)
  case Nil
  then show ?thesis by simp
next
  case (Cons c cs)
  have e: "''```'' = ''``'' @ ''`''" by simp
  have "prefix ''```'' (c # cs) \<Longrightarrow> prefix ''``'' (c # cs)"
    unfolding e by (rule append_prefixD)
  with assms Cons have nf: "\<not> prefix ''```'' (c # cs)" by blast
  from assms Cons have "c \<noteq> CHR 0x60 \<or> \<not> prefix ''`'' cs" by auto
  then have "c \<noteq> CHR 0x60 \<or> \<not> prefix ''`'' (strip_fences cs)"
    using strip_fences_head [of cs] by blast
  then show ?thesis unfolding Cons strip_fences_copy [OF nf] by auto
qed

lemma no_fence_left: "\<not> has_fence (strip_fences s)"
proof (induction s rule: strip_fences.induct)
  case 1
  show ?case by simp
next
  case (2 c cs)
  show ?case
  proof (cases "prefix ''```json'' (c # cs)")
    case True
    from 2(1) [OF True] show ?thesis unfolding strip_fences_json [OF True] .
  next
    case nj: False
    show ?thesis
    proof (cases "prefix ''```'' (c # cs)")
      case True
      from 2(2) [OF nj True] show ?thesis unfolding strip_fences_plain [OF nj True] .
    next
      case False
      from 2(3) [OF nj False] have ih: "\<not> has_fence (strip_fences cs)" .
      have "c \<noteq> CHR 0x60 \<or> \<not> prefix ''``'' cs" using False by auto
      then have "c \<noteq> CHR 0x60 \<or> \<not> prefix ''``'' (strip_fences cs)"
        using strip_fences_two [of cs] by blast
      then have "\<not> prefix ''```'' (c # strip_fences cs)" by auto
      with ih show ?thesis unfolding strip_fences_copy [OF False] by simp
    qed
  qed
qed


section \<open>Parsing the resume\<close>

text \<open>
  Claim C4, as the code has it. The route removes the markers \<^verbatim>\<open>```json\<close> and
  \<^verbatim>\<open>```\<close> wherever they stand, in one pass from the left, so that no \<^verbatim>\<open>```\<close> is
  left; it trims the result and parses it. A parse error fails the request with the parser's
  message and nothing is put in its place; a parsed value is the \<^verbatim>\<open>cvData\<close> of the
  rest of the route, from which the candidate's name is read.
\<close>

theorem fences_removed_then_parsed:
  assumes "JSON_parse env (text_of (body_options req)) = Inr opts"
    and "req_file req = Some f"
    and "parseCVContent env (path f) (mimetype f) w = (Inr content, w0)"
    and "generateTailoredCV env content (body_jobDescription req) w0 = (Inr resp, w1)"
  shows "\<not> has_fence (strip_fences resp)
     \<and> (\<forall>e. JSON_parse env (trim (strip_fences resp)) = Inl e \<longrightarrow>
           tailor_cv env req w = (Response 500 (Failure (message e)), w1))
     \<and> (\<forall>data. JSON_parse env (trim (strip_fences resp)) = Inr data \<longrightarrow>
           prepare env req w =
             (case bind_exn (get_prop (Some data) ''personalInfo'')
                     (\<lambda>personalInfo. get_prop personalInfo ''fullName'') of
                Inl e \<Rightarrow> (Inl e, w1)
              | Inr name \<Rightarrow>
                  (Inr \<lparr>options = opts, cvFile = f,
                        jobDescription = body_jobDescription req, cvContent = content,
                        tailoredCVResponse = resp, cvData = data, candidateName = name\<rparr>,
                   w1)))"
proof (intro conjI allI impI)
  show "\<not> has_fence (strip_fences resp)" by (rule no_fence_left)
next
  fix e
  assume "JSON_parse env (trim (strip_fences resp)) = Inl e"
  with assms show "tailor_cv env req w = (Response 500 (Failure (message e)), w1)"
    by (simp add: tailor_cv_def try_block_def prepare_def bind_io_def lift_io_def
        resume_json_text_def)
next
  fix data
  assume "JSON_parse env (trim (strip_fences resp)) = Inr data"
  with assms show "prepare env req w =
             (case bind_exn (get_prop (Some data) ''personalInfo'')
                     (\<lambda>personalInfo. get_prop personalInfo ''fullName'') of
                Inl e \<Rightarrow> (Inl e, w1)
              | Inr name \<Rightarrow>
                  (Inr \<lparr>options = opts, cvFile = f,
                        jobDescription = body_jobDescription req, cvContent = content,
                        tailoredCVResponse = resp, cvData = data, candidateName = name\<rparr>,
                   w1))"
    by (simp add: prepare_def bind_io_def lift_io_def return_io_def resume_json_text_def
        split: sum.splits)
qed

lemma pair_fst_snd: "fst p = a \<Longrightarrow> p = (a, snd p)"
  by (cases p) simp

theorem fences_removed_then_parsed_witness:
  "\<not> has_fence (strip_fences fenced_resume)
   \<and> JSON_parse (example_env fenced_resume) (trim (strip_fences fenced_resume))
       = Inr example_resume
   \<and> cvData (projr (fst (prepare (example_env fenced_resume) request_cv_docx example_world)))
       = example_resume
   \<and> candidateName
        (projr (fst (prepare (example_env fenced_resume) request_cv_docx example_world)))
       = Some (JStr ''Jane Doe'')"
proof -
  let ?E = "example_env fenced_resume"
  let ?R = "request_cv_docx"
  let ?f = "\<lparr>originalname = ''cv.docx'', mimetype = docx_mime, path = example_path\<rparr>"
  let ?content = "''Jane Doe, jane@x.com, 555-1234, Boston''"
  let ?w0 = "snd (parseCVContent ?E (path ?f) (mimetype ?f) example_world)"
  let ?w1 = "snd (generateTailoredCV ?E ?content (body_jobDescription ?R) ?w0)"
  have h1: "JSON_parse ?E (text_of (body_options ?R)) = Inr (example_options True False False ''docx'')"
    by code_simp
  have h2: "req_file ?R = Some ?f" by code_simp
  have h3: "parseCVContent ?E (path ?f) (mimetype ?f) example_world = (Inr ?content, ?w0)"
    by (rule pair_fst_snd) code_simp
  have h4: "generateTailoredCV ?E ?content (body_jobDescription ?R) ?w0 = (Inr fenced_resume, ?w1)"
    by (rule pair_fst_snd) code_simp
  have h5: "JSON_parse ?E (trim (strip_fences fenced_resume)) = Inr example_resume"
    by code_simp
  have h6: "bind_exn (get_prop (Some example_resume) ''personalInfo'')
      (\<lambda>personalInfo. get_prop personalInfo ''fullName'') = Inr (Some (JStr ''Jane Doe''))"
    by code_simp
  from fences_removed_then_parsed [OF h1 h2 h3 h4] h5 h6 show ?thesis
    by simp
qed

text \<open>
  Claim C4 as stated fails for an answer with a marker in its middle. With only a
  leading and a trailing marker removed, that text is not JSON and the request would have
  to fail; the route removes the inner marker too, parses the rest, and answers with the
  CV.
\<close>

theorem inner_fence_counterexample:
  "fst (tailor_cv (example_env inner_fence) request_cv_docx example_world)
     = Response 200 (Success
         \<lparr>cv = Some \<lparr>preview = inner_fence, fileName = ''Jane Doe_CV.docx'',
                     fileData = ''UEsDBA==''\<rparr>,
          coverLetter = None, email = None\<rparr>)
   \<and> strip_outer_fences_spec inner_fence = inner_fence
   \<and> JSON_parse (example_env inner_fence) (strip_outer_fences_spec inner_fence)
       = Inl (SyntaxError ''Unexpected token in JSON'')"
  by code_simp

section \<open>Validation\<close>

text \<open>
  Claim C2, as the code has it. The checks for a blank job description, a missing file
  and an empty selection are in the submit handler of the form, which then shows a
  message and sends nothing. The route does not repeat them: it fails before any file
  read or network call only for a request without a file, or with options that do not
  parse.
\<close>

theorem validation_in_form_and_route:
  "(trim (jobDescription_value fm) = [] \<or> cvFile_files fm = []
      \<or> (\<not> generateCV_checked fm \<and> \<not> generateCoverLetter_checked fm
           \<and> \<not> generateEmail_checked fm)
     \<longrightarrow> (\<exists>m. submit fm = Toast m))
   \<and> (req_file req = None \<longrightarrow> (\<exists>m. tailor_cv env req w = (Response 500 (Failure m), w)))
   \<and> (\<forall>e. JSON_parse env (text_of (body_options req)) = Inl e \<longrightarrow>
          tailor_cv env req w = (Response 500 (Failure (message e)), w))"
proof (intro conjI allI impI)
  assume "trim (jobDescription_value fm) = [] \<or> cvFile_files fm = []
      \<or> (\<not> generateCV_checked fm \<and> \<not> generateCoverLetter_checked fm
           \<and> \<not> generateEmail_checked fm)"
  then show "\<exists>m. submit fm = Toast m"
    by (auto simp add: submit_def split: list.splits)
next
  assume "req_file req = None"
  then show "\<exists>m. tailor_cv env req w = (Response 500 (Failure m), w)"
    by (cases "JSON_parse env (text_of (body_options req))")
       (simp_all add: tailor_cv_def try_block_def prepare_def bind_io_def lift_io_def)
next
  fix e
  assume "JSON_parse env (text_of (body_options req)) = Inl e"
  then show "tailor_cv env req w = (Response 500 (Failure (message e)), w)"
    by (simp add: tailor_cv_def try_block_def prepare_def bind_io_def lift_io_def)
qed

theorem validation_in_form_and_route_witness:
  "trim (jobDescription_value empty_form) = []
   \<and> (\<exists>m. submit empty_form = Toast m)
   \<and> req_file request_without_file = None
   \<and> (\<exists>m. tailor_cv (example_env fenced_resume) request_without_file example_world
             = (Response 500 (Failure m), example_world))
   \<and> tailor_cv (example_env fenced_resume) request_bad_options example_world
       = (Response 500 (Failure ''Unexpected token in JSON''), example_world)"
proof -
  have h1: "trim (jobDescription_value empty_form) = []" by code_simp
  have h2: "req_file request_without_file = None" by code_simp
  have h3: "JSON_parse (example_env fenced_resume) (text_of (body_options request_bad_options))
      = Inl (SyntaxError ''Unexpected token in JSON'')" by code_simp
  from validation_in_form_and_route
    [of empty_form request_without_file "example_env fenced_resume" example_world]
    validation_in_form_and_route
    [of empty_form request_bad_options "example_env fenced_resume" example_world]
    h1 h2 h3
  show ?thesis by simp
qed

text \<open>
  Claim C2 as stated fails at the route: with no kind selected the text is extracted and
  the resume completion is called, and the answer is a success without documents; with
  an empty job description the completions are called as well.
\<close>

theorem unvalidated_requests_counterexample:
  "fst (tailor_cv (example_env fenced_resume) request_nothing_selected example_world)
     = Response 200 (Success \<lparr>cv = None, coverLetter = None, email = None\<rparr>)
   \<and> filter is_extraction
        (calls (snd (tailor_cv (example_env fenced_resume) request_nothing_selected
                       example_world)))
     = [ExtractRawText example_upload]
   \<and> length (filter is_completion
        (calls (snd (tailor_cv (example_env fenced_resume) request_nothing_selected
                       example_world))))
     = 1
   \<and> fst (tailor_cv (example_env fenced_resume) request_empty_job example_world)
     = Response 200 (Success
         \<lparr>cv = None,
          coverLetter = Some \<lparr>preview = ''Dear Hiring Manager, I am writing to apply.'',
                              fileName = ''Jane Doe_Cover_Letter.pdf'',
                              fileData = ''JVBERg==''\<rparr>,
          email = None\<rparr>)
   \<and> length (filter is_completion
        (calls (snd (tailor_cv (example_env fenced_resume) request_empty_job example_world))))
     = 2"
  by code_simp


section \<open>Failures and uploads\<close>






text \<open>
  Claim C8. An upload is stored for the route exactly when its declared MIME type is
  that of PDF or of DOCX and it is at most 10 MB long. For a stored upload the extractor
  returns what \<^verbatim>\<open>pdfParse\<close> finds in the content when the type is PDF, and otherwise
  what \<^verbatim>\<open>mammoth.extractRawText\<close> finds; otherwise means DOCX.
\<close>

theorem upload_filter_and_dispatch:
  "((\<exists>f w'. upload_single file content dest w = (Inr (Some f), w'))
      \<longleftrightarrow> (mimetype file = ''application/pdf''
            \<or> mimetype file
                = ''application/vnd.openxmlformats-officedocument.wordprocessingml.document'')
          \<and> length content \<le> 10 * 1024 * 1024)
   \<and> (\<forall>f w'. upload_single file content dest w = (Inr (Some f), w') \<longrightarrow>
         fst (parseCVContent env (path f) (mimetype f) w')
           = (if mimetype file = ''application/pdf'' then pdfParse env content
              else extractRawText env content)
         \<and> (mimetype file \<noteq> ''application/pdf'' \<longrightarrow>
              mimetype file
                = ''application/vnd.openxmlformats-officedocument.wordprocessingml.document''))"
  by (auto simp add: upload_single_def fileFilter_def allowedTypes_def fileSize_limit_def
      parseCVContent_def split: sum.splits if_splits)

theorem upload_filter_and_dispatch_witness:
  "(\<exists>f w'. upload_single \<lparr>originalname = ''cv.docx'', mimetype = docx_mime\<rparr> example_upload
              example_path \<lparr>files = Map.empty, calls = []\<rparr> = (Inr (Some f), w')
      \<and> fst (parseCVContent (example_env fenced_resume) (path f) (mimetype f) w')
          = extractRawText (example_env fenced_resume) example_upload)"
proof -
  have h1: "mimetype \<lparr>originalname = ''cv.docx'', mimetype = docx_mime\<rparr>
      = ''application/vnd.openxmlformats-officedocument.wordprocessingml.document''"
    by code_simp
  have h2: "length example_upload \<le> 10 * 1024 * 1024" by (simp add: example_upload_def)
  have h3: "mimetype \<lparr>originalname = ''cv.docx'', mimetype = docx_mime\<rparr> \<noteq> ''application/pdf''"
    by code_simp
  from upload_filter_and_dispatch [of "\<lparr>originalname = ''cv.docx'', mimetype = docx_mime\<rparr>"
      example_upload example_path "\<lparr>files = Map.empty, calls = []\<rparr>"
      "example_env fenced_resume"] h1 h2 h3
  show ?thesis by simp blast
qed


section \<open>The log and the upload directory\<close>

lemma logs_onlyI:
  assumes "\<And>w. files (snd (m w)) = files w"
    and "\<And>w. \<exists>cs. calls (snd (m w)) = calls w @ cs \<and> list_all P cs"
  shows "logs_only P m"
  using assms by (simp add: logs_only_def)

lemma logs_onlyD:
  assumes "logs_only P m" and "m w = (r, w')"
  shows "files w' = files w" and "\<exists>cs. calls w' = calls w @ cs \<and> list_all P cs"
proof -
  from assms(1) have "files (snd (m w)) = files w"
    and "\<exists>cs. calls (snd (m w)) = calls w @ cs \<and> list_all P cs"
    by (simp_all add: logs_only_def)
  with assms(2) show "files w' = files w"
    and "\<exists>cs. calls w' = calls w @ cs \<and> list_all P cs" by simp_all
qed

lemma logs_only_return: "logs_only P (return_io x)"
  by (simp add: logs_only_def return_io_def)

lemma logs_only_lift: "logs_only P (lift_io r)"
  by (simp add: logs_only_def lift_io_def)

lemma logs_only_bind:
  assumes m: "logs_only P m" and f: "\<And>x. logs_only P (f x)"
  shows "logs_only P (bind_io m f)"
proof (rule logs_onlyI)
  fix w
  obtain r w1 where mw: "m w = (r, w1)" by (cases "m w")
  from logs_onlyD [OF m mw] obtain cs where
    1: "files w1 = files w" "calls w1 = calls w @ cs" "list_all P cs" by blast
  show "files (snd (bind_io m f w)) = files w"
  proof (cases r)
    case (Inl e)
    with mw 1 show ?thesis by (simp add: bind_io_def)
  next
    case (Inr x)
    obtain r2 w2 where fw: "f x w1 = (r2, w2)" by (cases "f x w1")
    from logs_onlyD(1) [OF f fw] Inr mw fw 1 show ?thesis by (simp add: bind_io_def)
  qed
  show "\<exists>cs. calls (snd (bind_io m f w)) = calls w @ cs \<and> list_all P cs"
  proof (cases r)
    case (Inl e)
    with mw 1 show ?thesis by (simp add: bind_io_def)
  next
    case (Inr x)
    obtain r2 w2 where fw: "f x w1 = (r2, w2)" by (cases "f x w1")
    from logs_onlyD(2) [OF f fw] obtain ds where
      "calls w2 = calls w1 @ ds" "list_all P ds" by blast
    with Inr mw fw 1 have "calls (snd (bind_io m f w)) = calls w @ (cs @ ds)"
      and "list_all P (cs @ ds)"
      by (simp_all add: bind_io_def)
    then show ?thesis by blast
  qed
qed

lemma logs_only_parseCVContent:
  "logs_only (\<lambda>c. \<not> is_unlink c \<and> \<not> is_task_call c) (parseCVContent env p m)"
  by (rule logs_onlyI) (simp_all add: parseCVContent_def issue_def split: option.splits)

lemma logs_only_generateTailoredCV:
  "logs_only (\<lambda>c. \<not> is_unlink c \<and> \<not> is_task_call c) (generateTailoredCV env content job)"
  by (rule logs_onlyI) (simp_all add: generateTailoredCV_def callDeepSeek_def issue_def)

lemma logs_only_prepare:
  "logs_only (\<lambda>c. \<not> is_unlink c \<and> \<not> is_task_call c) (prepare env req)"
  unfolding prepare_def
  by (intro logs_only_bind logs_only_lift logs_only_return logs_only_parseCVContent
      logs_only_generateTailoredCV)

lemma logs_only_spawn:
  assumes "logs_only P task"
  shows "logs_only P (spawn b k task)"
proof (rule logs_onlyI)
  fix w
  obtain r w1 where t: "task w = (r, w1)" by (cases "task w")
  from logs_onlyD [OF assms t] obtain cs where
    "files w1 = files w" "calls w1 = calls w @ cs" "list_all P cs" by blast
  with t show "files (snd (spawn b k task w)) = files w"
    and "\<exists>cs. calls (snd (spawn b k task w)) = calls w @ cs \<and> list_all P cs"
    by (auto simp add: spawn_def)
qed

lemma logs_only_cv_task:
  "logs_only (\<lambda>c. \<not> is_unlink c \<and> \<not> is_resume_call c) (cv_task env ctx)"
  by (rule logs_onlyI) (simp_all add: cv_task_def)

lemma logs_only_coverLetter_task:
  "logs_only (\<lambda>c. \<not> is_unlink c \<and> \<not> is_resume_call c) (coverLetter_task env ctx)"
  by (rule logs_onlyI)
     (simp_all add: coverLetter_task_def generateCoverLetter_def callDeepSeek_def issue_def
        bind_io_def lift_io_def split: sum.splits)

lemma logs_only_email_task:
  "logs_only (\<lambda>c. \<not> is_unlink c \<and> \<not> is_resume_call c) (email_task env ctx)"
  by (rule logs_onlyI)
     (simp_all add: email_task_def generateApplicationEmail_def callDeepSeek_def issue_def
        bind_io_def lift_io_def split: sum.splits)

lemma logs_only_fan_out:
  "logs_only (\<lambda>c. \<not> is_unlink c \<and> \<not> is_resume_call c) (fan_out env ctx)"
  unfolding fan_out_def
  by (intro logs_only_bind logs_only_lift logs_only_return logs_only_spawn
      logs_only_cv_task logs_only_coverLetter_task logs_only_email_task)


text \<open>
  The completion calls for the cover letter and for the email are issued only after the
  resume answer has been parsed: when the first statements of the route fail, the log
  of the whole request is theirs and holds no such call.
\<close>

lemma no_task_call_before_resume:
  assumes "prepare env req w = (Inl e, w1)"
  shows "tailor_cv env req w = (Response 500 (Failure (message e)), w1)
       \<and> (\<exists>cs. calls w1 = calls w @ cs \<and> list_all (\<lambda>c. \<not> is_task_call c) cs)"
proof -
  from assms have "tailor_cv env req w = (Response 500 (Failure (message e)), w1)"
    by (simp add: tailor_cv_def try_block_def bind_io_def)
  moreover from logs_onlyD(2) [OF logs_only_prepare assms] obtain cs where
    "calls w1 = calls w @ cs" "list_all (\<lambda>c. \<not> is_unlink c \<and> \<not> is_task_call c) cs" by blast
  then have "\<exists>cs. calls w1 = calls w @ cs \<and> list_all (\<lambda>c. \<not> is_task_call c) cs"
    by (auto simp add: list_all_iff)
  ultimately show ?thesis by simp
qed

lemma task_calls_follow_resume_call:
  assumes "prepare env req w = (Inr ctx, w1)" and "fan_out env ctx w1 = (r, w2)"
  shows "\<exists>before after. calls w2 = calls w @ before @ after
           \<and> list_all (\<lambda>c. \<not> is_task_call c) before
           \<and> list_ex is_resume_call before
           \<and> list_all (\<lambda>c. \<not> is_resume_call c) after"
proof -
  from logs_onlyD(2) [OF logs_only_prepare assms(1)] obtain before where
    b: "calls w1 = calls w @ before"
      "list_all (\<lambda>c. \<not> is_unlink c \<and> \<not> is_task_call c) before" by blast
  from logs_onlyD(2) [OF logs_only_fan_out assms(2)] obtain after where
    a: "calls w2 = calls w1 @ after"
      "list_all (\<lambda>c. \<not> is_unlink c \<and> \<not> is_resume_call c) after" by blast
  from prepare_Inr [OF assms(1)] obtain f :: stored_file and w0 where
    p: "parseCVContent env (path f) (mimetype f) w = (Inr (cvContent ctx), w0)"
      "generateTailoredCV env (cvContent ctx) (body_jobDescription req) w0
         = (Inr (tailoredCVResponse ctx), w1)"
    by blast
  from p(2) obtain c where c: "calls w1 = calls w0 @ [c]" "is_resume_call c"
    by (auto simp add: generateTailoredCV_def callDeepSeek_def issue_def)
  from logs_onlyD(2) [OF logs_only_parseCVContent p(1)] obtain ds where
    "calls w0 = calls w @ ds" by blast
  with c b have "before = ds @ [c]" by simp
  with c have "list_ex is_resume_call before" by simp
  moreover from b have "list_all (\<lambda>c. \<not> is_task_call c) before" by (simp add: list_all_iff)
  moreover from a have "list_all (\<lambda>c. \<not> is_resume_call c) after" by (simp add: list_all_iff)
  moreover from a b have "calls w2 = calls w @ before @ after" by simp
  ultimately show ?thesis by blast
qed


text \<open>
  Every failure leaves the upload directory as it was; a success removes the upload, and
  that removal is the only one in the log of the request.
\<close>

lemma unlinkSync_Inl: "unlinkSync p w = (Inl e, w') \<Longrightarrow> files w' = files w"
  by (auto simp add: unlinkSync_def issue_def split: option.splits)

lemma unlinkSync_Inr:
  "unlinkSync p w = (Inr u, w') \<Longrightarrow>
     files w p \<noteq> None \<and> files w' = (files w)(p := None) \<and> calls w' = calls w @ [UnlinkFile p]"
  by (auto simp add: unlinkSync_def issue_def split: option.splits)

lemma try_block_Inl:
  assumes "try_block env req w = (Inl e, w')"
  shows "prepare env req w = (Inl e, w')
       \<or> (\<exists>ctx w1. prepare env req w = (Inr ctx, w1) \<and>
            (fan_out env ctx w1 = (Inl e, w')
             \<or> (\<exists>ps. fan_out env ctx w1 = (Inr ps, w') \<and> Promise_all env ps = Inl e)
             \<or> (\<exists>ps w2. fan_out env ctx w1 = (Inr ps, w2)
                   \<and> unlinkSync (path (cvFile ctx)) w2 = (Inl e, w'))))"
  using assms unfolding try_block_def
  by (auto simp add: bind_io_Inl lift_io_eq return_io_eq)

lemma failure_keeps_upload:
  assumes "fst (tailor_cv env req w) = Response 500 (Failure m)"
  shows "files (snd (tailor_cv env req w)) = files w"
proof -
  from tailor_cv_cases [of env req w] assms obtain e w' where
    t: "try_block env req w = (Inl e, w')"
      "tailor_cv env req w = (Response 500 (Failure (message e)), w')"
    by auto
  from try_block_Inl [OF t(1)] consider
      (prep) "prepare env req w = (Inl e, w')"
    | (fan) ctx w1 r where "prepare env req w = (Inr ctx, w1)" "fan_out env ctx w1 = (r, w')"
    | (unlink) ctx w1 ps w2 where "prepare env req w = (Inr ctx, w1)"
        "fan_out env ctx w1 = (Inr ps, w2)" "unlinkSync (path (cvFile ctx)) w2 = (Inl e, w')"
    by blast
  then have "files w' = files w"
  proof cases
    case prep
    from logs_onlyD(1) [OF logs_only_prepare prep] show ?thesis .
  next
    case fan
    from logs_onlyD(1) [OF logs_only_prepare fan(1)] logs_onlyD(1) [OF logs_only_fan_out fan(2)]
    show ?thesis by simp
  next
    case unlink
    from logs_onlyD(1) [OF logs_only_prepare unlink(1)]
      logs_onlyD(1) [OF logs_only_fan_out unlink(2)] unlinkSync_Inl [OF unlink(3)]
    show ?thesis by simp
  qed
  with t(2) show ?thesis by simp
qed

lemma success_removes_upload_once:
  assumes "tailor_cv env req w = (Response 200 (Success res), w')"
  shows "\<exists>f cs. req_file req = Some f \<and> files w (path f) \<noteq> None
           \<and> files w' = (files w)(path f := None)
           \<and> calls w' = calls w @ cs @ [UnlinkFile (path f)]
           \<and> list_all (\<lambda>c. \<not> is_unlink c) cs"
proof -
  from tailor_cv_cases [of env req w] assms have tb: "try_block env req w = (Inr res, w')"
    by auto
  from try_block_Inr [OF tb] obtain ctx w1 ps w2 where
    prep: "prepare env req w = (Inr ctx, w1)" and fan: "fan_out env ctx w1 = (Inr ps, w2)"
    and un: "unlinkSync (path (cvFile ctx)) w2 = (Inr (), w')" by blast
  from prepare_Inr [OF prep] have f: "req_file req = Some (cvFile ctx)" by auto
  from logs_onlyD [OF logs_only_prepare prep] obtain cs where
    1: "files w1 = files w" "calls w1 = calls w @ cs"
      "list_all (\<lambda>c. \<not> is_unlink c \<and> \<not> is_task_call c) cs" by blast
  from logs_onlyD [OF logs_only_fan_out fan] obtain ds where
    2: "files w2 = files w1" "calls w2 = calls w1 @ ds"
      "list_all (\<lambda>c. \<not> is_unlink c \<and> \<not> is_resume_call c) ds" by blast
  from 1(3) 2(3) have 3: "list_all (\<lambda>c. \<not> is_unlink c) (cs @ ds)"
    by (auto simp add: list_all_iff)
  from unlinkSync_Inr [OF un] 1 2 have
    "files w (path (cvFile ctx)) \<noteq> None" "files w' = (files w)(path (cvFile ctx) := None)"
    "calls w' = calls w @ (cs @ ds) @ [UnlinkFile (path (cvFile ctx))]"
    by simp_all
  with f 3 show ?thesis by blast
qed

text \<open>
  Claim C3, at a request whose resume answer is not JSON: the request fails with the
  parser's message, and the upload is still in the directory; no removal was attempted.
\<close>

theorem upload_left_after_parse_failure:
  "fst (tailor_cv (example_env refusal) request_cv_docx example_world)
     = Response 500 (Failure ''Unexpected token in JSON'')
   \<and> files (snd (tailor_cv (example_env refusal) request_cv_docx example_world)) example_path
     = Some example_upload
   \<and> UnlinkFile example_path
       \<notin> set (calls (snd (tailor_cv (example_env refusal) request_cv_docx example_world)))"
  by code_simp

text \<open>
  A cover letter or an email in any format other than \<^verbatim>\<open>"pdf"\<close> is never produced,
  whatever the environment does.
\<close>

lemma text_task_without_pdf_rejected:
  assumes "get_prop (Some (options ctx)) ''format'' \<noteq> Inr (Some (JStr ''pdf''))"
  shows "isl (fst (coverLetter_task env ctx w)) \<and> isl (fst (email_task env ctx w))"
proof (cases "get_prop (Some (options ctx)) ''format''")
  case (Inl e)
  then show ?thesis
    by (simp add: coverLetter_task_def email_task_def bind_exn_def
        split: sum.splits prod.splits)
next
  case (Inr format)
  with assms have "format \<noteq> Some (JStr ''pdf'')" by simp
  with Inr show ?thesis
    by (simp add: coverLetter_task_def email_task_def bind_exn_def generateTextDocx_def
        split: sum.splits prod.splits)
qed

text \<open>
  Claim C1, at a request for a cover letter as DOCX. The completion calls succeed, and
  the request still fails: the route calls \<^verbatim>\<open>generateTextDocx\<close>, which the program
  does not define.
\<close>

theorem text_docx_request_fails:
  "fst (tailor_cv (example_env fenced_resume) request_letter_docx example_world)
     = Response 500 (Failure ''generateTextDocx is not defined'')
   \<and> length (filter is_completion
        (calls (snd (tailor_cv (example_env fenced_resume) request_letter_docx example_world))))
     = 2"
  by code_simp

end
